theory Spec2Isabelle
  imports Complex_Main "HOL-Library.Sublist"
begin

section \<open>Values, exceptions and the environment of one run\<close>

text \<open>
  The two plugins (\<^verbatim>\<open>github.1h.py\<close> and \<^verbatim>\<open>scholar.4h.py\<close>) handle values that
  come out of \<^verbatim>\<open>json.load\<close> and \<^verbatim>\<open>response.json()\<close>. Python's \<^verbatim>\<open>None\<close> is \<open>JNull\<close>;
  a dictionary is an association list of distinct keys, looked up with \<open>map_of\<close>.
  Integers are unbounded; floats are modelled as reals (rounding, NaN and infinities
  are outside the model); an integer too large for a float raises \<^verbatim>\<open>OverflowError\<close>
  where Python converts it (\<open>float_of\<close> below). A string is a list of characters with
  the code points 0 to 255, one \<open>char\<close> each; characters beyond are outside the model.
\<close>

datatype json =
    JNull
  | JBool bool
  | JInt int
  | JFloat real
  | JStr string
  | JArr "json list"
  | JObj "(string \<times> json) list"

text \<open>What \<^verbatim>\<open>requests.get\<close> hands back: \<open>headers\<close> is the dictionary
  \<^verbatim>\<open>response.headers\<close>, whose keys do not distinguish case, as a map from the header's
  name in lower case to its value; \<open>body\<close> is the value of \<^verbatim>\<open>response.json()\<close>, or
  \<open>None\<close> when the body is not JSON.\<close>

record response =
  status_code :: int
  headers :: "string \<Rightarrow> string option"
  body :: "json option"

text \<open>
  The exceptions the code can meet. \<open>RateLimited n\<close> is the
  \<^verbatim>\<open>Exception(f"GitHub API rate limit exceeded. Resets at {reset_time}")\<close> of
  \<^verbatim>\<open>make_github_request\<close>, with \<open>n\<close> the epoch second read from the reset header;
  \<open>SerpApiError v\<close> is the \<^verbatim>\<open>Exception(f"SERP API Error: {data['error']}")\<close> of
  \<^verbatim>\<open>fetch_scholar_data\<close>; \<open>HTTPError r\<close> is what \<^verbatim>\<open>raise_for_status\<close> raises and
  carries the response; \<open>ConnectionError\<close> stands for every failure of
  \<^verbatim>\<open>requests.get\<close> itself (time-out, refused connection, DNS).
\<close>

datatype exn =
    KeyError json
  | TypeError
  | AttributeError
  | ValueError
  | IndexError
  | OverflowError
  | OSError
  | ConnectionError
  | JSONDecodeError
  | HTTPError response
  | RateLimited int
  | SerpApiError json

datatype request = Get string "(string \<times> json) list" "(string \<times> string) list"

datatype http_result = Failed | Response response

text \<open>The cache file as \<^verbatim>\<open>load_cache\<close> can find it: absent
  (\<^verbatim>\<open>os.path.exists\<close> is false), present but \<^verbatim>\<open>open\<close> fails, present but
  \<^verbatim>\<open>json.load\<close> fails, or holding a JSON value.\<close>

datatype file_state = Absent | Unreadable | Garbled | Holds json

text \<open>
  Everything a run reads from outside. \<open>clock k\<close> is the \<open>k\<close>-th reading of the system
  clock (\<^verbatim>\<open>time.time()\<close>, \<^verbatim>\<open>datetime.now()\<close>), \<open>net k rq\<close> the answer to request \<open>rq\<close>
  when \<open>k\<close> requests were issued before it, \<open>writable\<close> whether the cache file can be
  written (\<^verbatim>\<open>open(cache_file, 'w')\<close> succeeds). The remaining functions are Python's
  library:
  \<^verbatim>\<open>str()\<close> of a value that is not a string and of an exception, \<^verbatim>\<open>int()\<close> of a
  string (the integer, or the exception it raises), \<^verbatim>\<open>str.strip()\<close>, \<^verbatim>\<open>strftime\<close>,
  \<^verbatim>\<open>strptime\<close> (\<open>None\<close> when the text does not match the format), the year of a clock
  reading, and \<^verbatim>\<open>datetime.fromtimestamp\<close> (\<open>None\<close> when it returns, otherwise the
  exception it raises for that epoch second: \<^verbatim>\<open>OverflowError\<close>, \<^verbatim>\<open>ValueError\<close> or
  \<^verbatim>\<open>OSError\<close>, depending on the number and the platform). The configuration strings
  are those the scripts read from the process environment.
\<close>

record env =
  clock :: "nat \<Rightarrow> real"
  net :: "nat \<Rightarrow> request \<Rightarrow> http_result"
  writable :: bool
  py_str :: "json \<Rightarrow> string"
  exn_str :: "exn \<Rightarrow> string"
  py_int :: "string \<Rightarrow> exn + int"
  py_strip :: "string \<Rightarrow> string"
  strftime :: "real \<Rightarrow> string"
  strptime :: "string \<Rightarrow> real option"
  year_of :: "real \<Rightarrow> int"
  fromtimestamp :: "int \<Rightarrow> exn option"
  GITHUB_USERNAME :: string
  GITHUB_TOKEN :: string
  MONITORED_REPOS :: "string list"
  SERP_API_KEY :: string
  SCHOLAR_ID :: string

text \<open>What a run changes: the cache file, how often the clock was read, the requests
  issued so far (oldest first) and the lines printed.\<close>

record world =
  cache :: file_state
  ticks :: nat
  reqs :: "request list"
  stdout :: "string list"

type_synonym 'a io = "world \<Rightarrow> (exn + 'a) \<times> world"

text \<open>Sequencing: an exception of the first action ends the sequence.\<close>

definition bind_io :: "'a io \<Rightarrow> ('a \<Rightarrow> 'b io) \<Rightarrow> 'b io" where
  "bind_io m f w = (case m w of (Inl e, w') \<Rightarrow> (Inl e, w') | (Inr a, w') \<Rightarrow> f a w')"

definition lift_io :: "exn + 'a \<Rightarrow> 'a io" where
  "lift_io r w = (r, w)"

definition read_clock :: "env \<Rightarrow> real io" where
  "read_clock env w = (Inr (clock env (ticks w)), w\<lparr>ticks := Suc (ticks w)\<rparr>)"

subsection \<open>Python's operations on values\<close>

fun truthy :: "json \<Rightarrow> bool" where
  "truthy JNull = False"
| "truthy (JBool b) = b"
| "truthy (JInt i) = (i \<noteq> 0)"
| "truthy (JFloat r) = (r \<noteq> 0)"
| "truthy (JStr s) = (s \<noteq> [])"
| "truthy (JArr xs) = (xs \<noteq> [])"
| "truthy (JObj kv) = (kv \<noteq> [])"

text \<open>The number a value counts as in a comparison (\<^verbatim>\<open>True\<close> is 1, \<^verbatim>\<open>False\<close> is 0).\<close>

fun num_of :: "json \<Rightarrow> real option" where
  "num_of (JInt i) = Some (of_int i)"
| "num_of (JFloat r) = Some r"
| "num_of (JBool b) = Some (if b then 1 else 0)"
| "num_of v = None"

text \<open>The float a value becomes in arithmetic with a float. An integer converts when
  it rounds to a finite double, that is when its magnitude is below
  \<open>2 ^ 1024 - 2 ^ 970\<close>; a larger one raises \<^verbatim>\<open>OverflowError\<close>
  (\<^verbatim>\<open>int too large to convert to float\<close>). Anything but a number is a \<^verbatim>\<open>TypeError\<close>.\<close>

definition FLOAT_LIMIT :: int where
  "FLOAT_LIMIT = 2 ^ 1024 - 2 ^ 970"

fun float_of :: "json \<Rightarrow> exn + real" where
  "float_of (JInt i) = (if \<bar>i\<bar> < FLOAT_LIMIT then Inr (of_int i) else Inl OverflowError)"
| "float_of (JFloat r) = Inr r"
| "float_of (JBool b) = Inr (if b then 1 else 0)"
| "float_of v = Inl TypeError"

text \<open>\<^verbatim>\<open>d.get(k, dflt)\<close>: only a dictionary has the method.\<close>

fun dict_get :: "json \<Rightarrow> string \<Rightarrow> json \<Rightarrow> exn + json" where
  "dict_get (JObj kv) k dflt = Inr (case map_of kv k of None \<Rightarrow> dflt | Some v \<Rightarrow> v)"
| "dict_get v k dflt = Inl AttributeError"

text \<open>\<^verbatim>\<open>d[k]\<close> with a string key: a missing key is a \<^verbatim>\<open>KeyError\<close>, anything but a
  dictionary a \<^verbatim>\<open>TypeError\<close>.\<close>

fun subscript :: "json \<Rightarrow> string \<Rightarrow> exn + json" where
  "subscript (JObj kv) k = (case map_of kv k of None \<Rightarrow> Inl (KeyError (JStr k)) | Some v \<Rightarrow> Inr v)"
| "subscript v k = Inl TypeError"

section \<open>The cache store\<close>

definition GITHUB_CACHE_EXPIRATION :: real where
  "GITHUB_CACHE_EXPIRATION = 60 * 60"

definition SCHOLAR_CACHE_EXPIRATION :: real where
  "SCHOLAR_CACHE_EXPIRATION = 4 * 60 * 60"

text \<open>The body of the \<^verbatim>\<open>try\<close> in \<^verbatim>\<open>load_cache\<close>, once \<^verbatim>\<open>json.load\<close> has returned
  \<open>cache_data\<close> and \<^verbatim>\<open>time.time()\<close> has returned \<open>now\<close>.\<close>

definition load_cache_try :: "real \<Rightarrow> real \<Rightarrow> json \<Rightarrow> exn + json" where
  "load_cache_try expiration now cache_data =
     (case dict_get cache_data ''timestamp'' (JInt 0) of
        Inl e \<Rightarrow> Inl e
      | Inr ts \<Rightarrow>
          (case float_of ts of
             Inl e \<Rightarrow> Inl e
           | Inr t \<Rightarrow>
               if now - t > expiration then Inr JNull
               else dict_get cache_data ''data'' JNull))"

text \<open>\<^verbatim>\<open>load_cache\<close> is the same text in both scripts but for the constant
  \<^verbatim>\<open>CACHE_EXPIRATION\<close>, which is the first argument here. Every exception of the
  \<^verbatim>\<open>try\<close> block is caught and turned into \<^verbatim>\<open>None\<close>.\<close>

definition load_cache :: "real \<Rightarrow> env \<Rightarrow> json io" where
  "load_cache expiration env w =
     (case cache w of
        Absent \<Rightarrow> (Inr JNull, w)
      | Unreadable \<Rightarrow> (Inr JNull, w)
      | Garbled \<Rightarrow> (Inr JNull, w)
      | Holds cache_data \<Rightarrow>
          (case load_cache_try expiration (clock env (ticks w)) cache_data of
             Inl e \<Rightarrow> (Inr JNull, w\<lparr>ticks := Suc (ticks w)\<rparr>)
           | Inr v \<Rightarrow> (Inr v, w\<lparr>ticks := Suc (ticks w)\<rparr>)))"

definition github_load_cache :: "env \<Rightarrow> json io" where
  "github_load_cache = load_cache GITHUB_CACHE_EXPIRATION"

definition scholar_load_cache :: "env \<Rightarrow> json io" where
  "scholar_load_cache = load_cache SCHOLAR_CACHE_EXPIRATION"

text \<open>\<^verbatim>\<open>save_cache\<close> (the same in both scripts): when the file cannot be opened for
  writing, the exception is swallowed and the file is as it was. A failure of
  \<^verbatim>\<open>json.dump\<close> after the file was opened (a full disk) is outside the model.\<close>

definition save_cache :: "json \<Rightarrow> env \<Rightarrow> unit io" where
  "save_cache data env w =
     (let now = clock env (ticks w); w' = w\<lparr>ticks := Suc (ticks w)\<rparr>
      in if writable env
         then (Inr (), w'\<lparr>cache := Holds (JObj [(''timestamp'', JFloat now), (''data'', data)])\<rparr>)
         else (Inr (), w'))"


section \<open>Strings and headers\<close>

text \<open>The icons that start the menu lines lie beyond code point 255; each stands
  here as the sequence of bytes that the source file holds for it.\<close>

definition ICON_STAR :: string where
  "ICON_STAR = [CHR 0xE2, CHR 0x80, CHR 0x9A, CHR 0xE2, CHR 0x89, CHR 0xA0, CHR 0xC3, CHR 0xAA]"

definition ICON_PERSON :: string where
  "ICON_PERSON = [CHR 0xEF, CHR 0xA3, CHR 0xBF, CHR 0xC3, CHR 0xBC, CHR 0xC3, CHR 0xAB, CHR 0xC2, CHR 0xA7]"

definition ICON_CHART :: string where
  "ICON_CHART = [CHR 0xEF, CHR 0xA3, CHR 0xBF, CHR 0xC3, CHR 0xBC, CHR 0xC3, CHR 0xAC, CHR 0xC3, CHR 0xA4]"

definition ICON_PEOPLE :: string where
  "ICON_PEOPLE = [CHR 0xEF, CHR 0xA3, CHR 0xBF, CHR 0xC3, CHR 0xBC, CHR 0xC3, CHR 0xAB, CHR 0xE2, CHR 0x80, CHR 0xA2]"

definition ICON_FOLDER :: string where
  "ICON_FOLDER = [CHR 0xEF, CHR 0xA3, CHR 0xBF, CHR 0xC3, CHR 0xBC, CHR 0xC3, CHR 0xB3, CHR 0xC3, CHR 0x87]"

definition ICON_PIN :: string where
  "ICON_PIN = [CHR 0xEF, CHR 0xA3, CHR 0xBF, CHR 0xC3, CHR 0xBC, CHR 0xC3, CHR 0xAC, CHR 0xC3, CHR 0xA5]"

definition ICON_BULLET :: string where
  "ICON_BULLET = [CHR 0xE2, CHR 0x80, CHR 0x9A, CHR 0xC3, CHR 0x84, CHR 0xC2, CHR 0xA2]"

definition ICON_BELL :: string where
  "ICON_BELL = [CHR 0xEF, CHR 0xA3, CHR 0xBF, CHR 0xC3, CHR 0xBC, CHR 0xC3, CHR 0xAE, CHR 0xC3, CHR 0xAE]"

definition ICON_ARROW :: string where
  "ICON_ARROW = [CHR 0xE2, CHR 0x80, CHR 0x9A, CHR 0xC3, CHR 0x9C, CHR 0xC3, CHR 0xAD]"

definition ICON_CLOCK :: string where
  "ICON_CLOCK = [CHR 0xEF, CHR 0xA3, CHR 0xBF, CHR 0xC3, CHR 0xBC, CHR 0xC3, CHR 0xAF, CHR 0xC3, CHR 0xAD]"

definition ICON_SEARCH :: string where
  "ICON_SEARCH = [CHR 0xEF, CHR 0xA3, CHR 0xBF, CHR 0xC3, CHR 0xBC, CHR 0xC3, CHR 0xAE, CHR 0xC3, CHR 0xA7]"

definition ICON_REFRESH :: string where
  "ICON_REFRESH = [CHR 0xEF, CHR 0xA3, CHR 0xBF, CHR 0xC3, CHR 0xBC, CHR 0xC3, CHR 0xAE, CHR 0xC3, CHR 0x91]"

definition ICON_WARNING :: string where
  "ICON_WARNING = [CHR 0xE2, CHR 0x80, CHR 0x9A, CHR 0xC3, CHR 0xB6, CHR 0xE2, CHR 0x80, CHR 0xA0, CHR 0xC3, CHR 0x94, CHR 0xE2, CHR 0x88, CHR 0x8F, CHR 0xC3, CHR 0xA8]"

definition ICON_CROSS :: string where
  "ICON_CROSS = [CHR 0xE2, CHR 0x80, CHR 0x9A, CHR 0xC3, CHR 0xB9, CHR 0xC3, CHR 0xA5]"

definition SCHOLAR_ICON_BOOKS :: string where
  "SCHOLAR_ICON_BOOKS = [CHR 0xC4, CHR 0x9F, CHR 0xC5, CHR 0xB8, CHR 0xE2, CHR 0x80, CHR 0x9C, CHR 0xC5, CHR 0xA1]"

definition SCHOLAR_ICON_PERSON :: string where
  "SCHOLAR_ICON_PERSON = [CHR 0xC4, CHR 0x9F, CHR 0xC5, CHR 0xB8, CHR 0xE2, CHR 0x80, CHR 0x98, CHR 0xC2, CHR 0xA4]"

definition SCHOLAR_ICON_CHART :: string where
  "SCHOLAR_ICON_CHART = [CHR 0xC4, CHR 0x9F, CHR 0xC5, CHR 0xB8, CHR 0xE2, CHR 0x80, CHR 0x9C, CHR 0xC5, CHR 0xA0]"

definition SCHOLAR_ICON_CLOCK :: string where
  "SCHOLAR_ICON_CLOCK = [CHR 0xC4, CHR 0x9F, CHR 0xC5, CHR 0xB8, CHR 0xE2, CHR 0x80, CHR 0xA2, CHR 0xE2, CHR 0x80, CHR 0x99]"

definition SCHOLAR_ICON_SEARCH :: string where
  "SCHOLAR_ICON_SEARCH = [CHR 0xC4, CHR 0x9F, CHR 0xC5, CHR 0xB8, CHR 0xE2, CHR 0x80, CHR 0x9D]"

definition SCHOLAR_ICON_REFRESH :: string where
  "SCHOLAR_ICON_REFRESH = [CHR 0xC4, CHR 0x9F, CHR 0xC5, CHR 0xB8, CHR 0xE2, CHR 0x80, CHR 0x9D, CHR 0xE2, CHR 0x80, CHR 0x9E]"

definition SCHOLAR_ICON_WARNING :: string where
  "SCHOLAR_ICON_WARNING = [CHR 0xC3, CHR 0xA2, CHR 0xC5, CHR 0xA1, CHR 0xC2, CHR 0xA0, CHR 0xC3, CHR 0xAF, CHR 0xC2, CHR 0xB8]"

definition SCHOLAR_ICON_CROSS :: string where
  "SCHOLAR_ICON_CROSS = [CHR 0xC3, CHR 0xA2, CHR 0xC5, CHR 0x92]"

text \<open>\<^verbatim>\<open>{v}\<close> inside an f-string: a string stands for itself, every other value for
  its \<^verbatim>\<open>str()\<close>.\<close>

definition fstr :: "env \<Rightarrow> json \<Rightarrow> string" where
  "fstr env v = (case v of JStr s \<Rightarrow> s | _ \<Rightarrow> py_str env v)"

definition lower_char :: "char \<Rightarrow> char" where
  "lower_char c =
     (case map_of (zip ''ABCDEFGHIJKLMNOPQRSTUVWXYZ'' ''abcdefghijklmnopqrstuvwxyz'') c of
        None \<Rightarrow> c
      | Some l \<Rightarrow> l)"

text \<open>Looking a literal key up in \<^verbatim>\<open>response.headers\<close>: the dictionary puts the key
  in lower case first.\<close>

definition header_get :: "(string \<Rightarrow> string option) \<Rightarrow> string \<Rightarrow> string option" where
  "header_get hs k = hs (map lower_char k)"

text \<open>Iterating over a value (\<^verbatim>\<open>for x in v\<close>, \<^verbatim>\<open>list.extend(v)\<close>): a list gives its
  items, a dictionary its keys, a string its characters; nothing else is iterable.\<close>

fun py_iter :: "json \<Rightarrow> exn + json list" where
  "py_iter (JArr xs) = Inr xs"
| "py_iter (JObj kv) = Inr (map (\<lambda>p. JStr (fst p)) kv)"
| "py_iter (JStr s) = Inr (map (\<lambda>c. JStr [c]) s)"
| "py_iter v = Inl TypeError"

text \<open>\<^verbatim>\<open>a + b\<close> on numbers, as \<^verbatim>\<open>sum\<close> needs it: integers (and booleans) add to an
  integer, a float makes the sum a float (the other operand is converted), anything
  else is a \<^verbatim>\<open>TypeError\<close>.\<close>

fun int_of :: "json \<Rightarrow> int option" where
  "int_of (JInt i) = Some i"
| "int_of (JBool b) = Some (if b then 1 else 0)"
| "int_of v = None"

definition py_add :: "json \<Rightarrow> json \<Rightarrow> exn + json" where
  "py_add a b =
     (case (int_of a, int_of b) of
        (Some i, Some j) \<Rightarrow> Inr (JInt (i + j))
      | _ \<Rightarrow> if num_of a = None \<or> num_of b = None then Inl TypeError
             else (case (float_of a, float_of b) of
                     (Inr x, Inr y) \<Rightarrow> Inr (JFloat (x + y))
                   | (Inl e, _) \<Rightarrow> Inl e
                   | (_, Inl e) \<Rightarrow> Inl e))"

definition bind_res :: "exn + 'a \<Rightarrow> ('a \<Rightarrow> exn + 'b) \<Rightarrow> exn + 'b" where
  "bind_res r f = (case r of Inl e \<Rightarrow> Inl e | Inr a \<Rightarrow> f a)"

definition print_lines :: "string list \<Rightarrow> unit io" where
  "print_lines ls w = (Inr (), w\<lparr>stdout := stdout w @ ls\<rparr>)"

section \<open>The code-hosting plugin (github.1h.py)\<close>

definition GITHUB_API :: string where
  "GITHUB_API = ''https://api.github.com''"

definition USER_ENDPOINT :: "env \<Rightarrow> string" where
  "USER_ENDPOINT env = GITHUB_API @ ''/users/'' @ GITHUB_USERNAME env"

definition REPOS_ENDPOINT :: "env \<Rightarrow> string" where
  "REPOS_ENDPOINT env = GITHUB_API @ ''/users/'' @ GITHUB_USERNAME env @ ''/repos''"

definition RECEIVED_EVENTS_ENDPOINT :: "env \<Rightarrow> string" where
  "RECEIVED_EVENTS_ENDPOINT env =
     GITHUB_API @ ''/users/'' @ GITHUB_USERNAME env @ ''/received_events''"

subsection \<open>make_github_request\<close>

text \<open>The rate-limit check (the \<^verbatim>\<open>if\<close> after \<^verbatim>\<open>requests.get\<close>): the exception it
  raises, if any. Reading the reset header can itself fail: the header may be
  missing, \<^verbatim>\<open>int()\<close> may reject it, and so may \<^verbatim>\<open>datetime.fromtimestamp\<close>.\<close>

definition rate_limit_check :: "env \<Rightarrow> response \<Rightarrow> exn option" where
  "rate_limit_check env r =
     (if status_code r = 403 \<and> header_get (headers r) ''X-RateLimit-Remaining'' \<noteq> None then
        (if header_get (headers r) ''X-RateLimit-Remaining'' = Some ''0'' then
           (case header_get (headers r) ''X-RateLimit-Reset'' of
              None \<Rightarrow> Some (KeyError (JStr ''x-ratelimit-reset''))
            | Some s \<Rightarrow>
                (case py_int env s of
                   Inl e \<Rightarrow> Some e
                 | Inr n \<Rightarrow> (case fromtimestamp env n of
                               Some e \<Rightarrow> Some e
                             | None \<Rightarrow> Some (RateLimited n))))
         else None)
      else None)"

text \<open>\<^verbatim>\<open>response.raise_for_status()\<close> raises for the statuses 400 to 599.\<close>

definition raise_for_status :: "response \<Rightarrow> exn option" where
  "raise_for_status r =
     (if 400 \<le> status_code r \<and> status_code r < 600 then Some (HTTPError r) else None)"

definition response_json :: "response \<Rightarrow> exn + json" where
  "response_json r = (case body r of None \<Rightarrow> Inl JSONDecodeError | Some j \<Rightarrow> Inr j)"

definition check_response :: "env \<Rightarrow> response \<Rightarrow> exn + json" where
  "check_response env r =
     (case rate_limit_check env r of
        Some e \<Rightarrow> Inl e
      | None \<Rightarrow> (case raise_for_status r of Some e \<Rightarrow> Inl e | None \<Rightarrow> response_json r))"

definition github_headers :: "env \<Rightarrow> (string \<times> string) list" where
  "github_headers env =
     (if GITHUB_TOKEN env \<noteq> []
      then [(''Accept'', ''application/vnd.github.v3+json''),
            (''Authorization'', ''token '' @ GITHUB_TOKEN env)]
      else [(''Accept'', ''application/vnd.github.v3+json'')])"

text \<open>Issues one request (logged in \<open>reqs\<close>) and checks the answer.\<close>

definition make_github_request :: "env \<Rightarrow> string \<Rightarrow> (string \<times> json) list \<Rightarrow> json io" where
  "make_github_request env url params w =
     (case net env (length (reqs w)) (Get url params (github_headers env)) of
        Failed \<Rightarrow> (Inl ConnectionError, w\<lparr>reqs := reqs w @ [Get url params (github_headers env)]\<rparr>)
      | Response r \<Rightarrow>
          (check_response env r, w\<lparr>reqs := reqs w @ [Get url params (github_headers env)]\<rparr>))"

subsection \<open>The fetchers\<close>

definition fetch_user_data :: "env \<Rightarrow> json io" where
  "fetch_user_data env = make_github_request env (USER_ENDPOINT env) []"

definition repos_params :: "int \<Rightarrow> (string \<times> json) list" where
  "repos_params page = [(''page'', JInt page), (''per_page'', JInt 100)]"

text \<open>The \<^verbatim>\<open>while True\<close> loop of \<^verbatim>\<open>fetch_repos_data\<close>. It ends at the first page that
  is falsy or at the first exception; against a server that never sends an empty page
  it does not end, and the value is \<open>None\<close>.\<close>

partial_function (option) repos_loop ::
  "env \<Rightarrow> int \<Rightarrow> json list \<Rightarrow> world \<Rightarrow> ((exn + json list) \<times> world) option" where
  "repos_loop env page all_repos w =
     (case make_github_request env (REPOS_ENDPOINT env) (repos_params page) w of
        (Inl e, w') \<Rightarrow> Some (Inl e, w')
      | (Inr repos, w') \<Rightarrow>
          if \<not> truthy repos then Some (Inr all_repos, w')
          else (case py_iter repos of
                  Inl e \<Rightarrow> Some (Inl e, w')
                | Inr items \<Rightarrow> repos_loop env (page + 1) (all_repos @ items) w'))"

definition fetch_repos_data :: "env \<Rightarrow> world \<Rightarrow> ((exn + json list) \<times> world) option" where
  "fetch_repos_data env w = repos_loop env 1 [] w"

text \<open>\<^verbatim>\<open>sum(repo["stargazers_count"] for repo in repos)\<close>, from the running total.\<close>

fun sum_stars :: "json \<Rightarrow> json list \<Rightarrow> exn + json" where
  "sum_stars acc [] = Inr acc"
| "sum_stars acc (repo # rest) =
     bind_res (subscript repo ''stargazers_count'') (\<lambda>n.
     bind_res (py_add acc n) (\<lambda>acc'. sum_stars acc' rest))"

definition fetch_stars_received :: "env \<Rightarrow> world \<Rightarrow> ((exn + json) \<times> world) option" where
  "fetch_stars_received env w =
     (case fetch_repos_data env w of
        None \<Rightarrow> None
      | Some (Inl e, w') \<Rightarrow> Some (Inl e, w')
      | Some (Inr repos, w') \<Rightarrow> Some (sum_stars (JInt 0) repos, w'))"

definition monitored_entry :: "json \<Rightarrow> exn + json" where
  "monitored_entry repo_data =
     bind_res (subscript repo_data ''name'') (\<lambda>name.
     bind_res (subscript repo_data ''full_name'') (\<lambda>full_name.
     bind_res (subscript repo_data ''html_url'') (\<lambda>url.
     bind_res (subscript repo_data ''stargazers_count'') (\<lambda>stars.
     bind_res (subscript repo_data ''forks_count'') (\<lambda>forks.
       Inr (JObj [(''name'', name), (''full_name'', full_name), (''url'', url),
                  (''stars'', stars), (''forks'', forks)]))))))"

text \<open>The loop of \<^verbatim>\<open>fetch_monitored_repos_data\<close>: a repository whose request or whose
  fields fail is skipped.\<close>

fun monitored_loop :: "env \<Rightarrow> string list \<Rightarrow> json list \<Rightarrow> world \<Rightarrow> json list \<times> world" where
  "monitored_loop env [] result w = (result, w)"
| "monitored_loop env (repo_full_name # rest) result w =
     (if py_strip env repo_full_name = [] then monitored_loop env rest result w
      else (case make_github_request env (GITHUB_API @ ''/repos/'' @ py_strip env repo_full_name)
                   [] w of
              (Inl e, w') \<Rightarrow> monitored_loop env rest result w'
            | (Inr repo_data, w') \<Rightarrow>
                (case monitored_entry repo_data of
                   Inl e \<Rightarrow> monitored_loop env rest result w'
                 | Inr entry \<Rightarrow> monitored_loop env rest (result @ [entry]) w')))"

definition fetch_monitored_repos_data :: "env \<Rightarrow> json io" where
  "fetch_monitored_repos_data env w =
     (case monitored_loop env (MONITORED_REPOS env) [] w of (result, w') \<Rightarrow> (Inr (JArr result), w'))"

definition star_entry :: "env \<Rightarrow> json \<Rightarrow> exn + json" where
  "star_entry env event =
     bind_res (subscript event ''actor'') (\<lambda>actor.
     bind_res (subscript actor ''login'') (\<lambda>login.
     bind_res (subscript event ''repo'') (\<lambda>repo.
     bind_res (subscript repo ''name'') (\<lambda>repo_name.
     bind_res (subscript event ''created_at'') (\<lambda>created.
       Inr (JObj [(''actor'', login), (''repo_name'', repo_name),
                  (''repo_url'', JStr (''https://github.com/'' @ fstr env repo_name)),
                  (''time'', created)]))))))"

text \<open>The loop over the received events: star events only, at most five.\<close>

fun star_loop :: "env \<Rightarrow> json list \<Rightarrow> json list \<Rightarrow> exn + json list" where
  "star_loop env [] star_events = Inr star_events"
| "star_loop env (event # rest) star_events =
     bind_res (subscript event ''type'') (\<lambda>t.
       if t = JStr ''WatchEvent''
       then bind_res (star_entry env event) (\<lambda>entry.
              if length (star_events @ [entry]) \<ge> 5 then Inr (star_events @ [entry])
              else star_loop env rest (star_events @ [entry]))
       else star_loop env rest star_events)"

definition fetch_recent_stars_by_following :: "env \<Rightarrow> json io" where
  "fetch_recent_stars_by_following env =
     bind_io (make_github_request env (RECEIVED_EVENTS_ENDPOINT env) [(''per_page'', JInt 30)])
       (\<lambda>events. lift_io (bind_res (py_iter events) (\<lambda>evs.
                           bind_res (star_loop env evs []) (\<lambda>stars. Inr (JArr stars)))))"

subsection \<open>fetch_github_data\<close>

text \<open>The fields the result takes from \<open>user_data\<close>, in the order the dictionary
  display evaluates them.\<close>

definition user_fields :: "json \<Rightarrow> exn + (string \<times> json) list" where
  "user_fields user_data =
     bind_res (subscript user_data ''login'') (\<lambda>username.
     bind_res (subscript user_data ''login'') (\<lambda>dflt.
     bind_res (dict_get user_data ''name'' dflt) (\<lambda>name.
     bind_res (subscript user_data ''avatar_url'') (\<lambda>avatar_url.
     bind_res (subscript user_data ''followers'') (\<lambda>followers.
     bind_res (subscript user_data ''following'') (\<lambda>following.
     bind_res (subscript user_data ''public_repos'') (\<lambda>public_repos.
       Inr [(''username'', username), (''name'', name), (''avatar_url'', avatar_url),
            (''followers'', followers), (''following'', following),
            (''public_repos'', public_repos)])))))))"

definition assemble_result :: "env \<Rightarrow> json \<Rightarrow> json \<Rightarrow> json \<Rightarrow> json \<Rightarrow> json io" where
  "assemble_result env user_data stars_received monitored_repos recent_stars =
     bind_io (lift_io (user_fields user_data)) (\<lambda>fields.
     bind_io (read_clock env) (\<lambda>now.
       lift_io (Inr (JObj (fields @
         [(''stars_received'', stars_received), (''monitored_repos'', monitored_repos),
          (''recent_stars'', recent_stars), (''last_updated'', JStr (strftime env now))])))))"

text \<open>The part of \<^verbatim>\<open>fetch_github_data\<close> after the cache check, up to the result
  (\<^verbatim>\<open># If no valid cache, fetch from API\<close>).\<close>

definition fetch_from_api :: "env \<Rightarrow> world \<Rightarrow> ((exn + json) \<times> world) option" where
  "fetch_from_api env w =
     (case fetch_user_data env w of
        (Inl e, w1) \<Rightarrow> Some (Inl e, w1)
      | (Inr user_data, w1) \<Rightarrow>
          (case fetch_stars_received env w1 of
             None \<Rightarrow> None
           | Some (Inl e, w2) \<Rightarrow> Some (Inl e, w2)
           | Some (Inr stars_received, w2) \<Rightarrow>
               Some (bind_io (fetch_monitored_repos_data env) (\<lambda>monitored_repos.
                     bind_io (fetch_recent_stars_by_following env) (\<lambda>recent_stars.
                       assemble_result env user_data stars_received monitored_repos
                         recent_stars)) w2)))"

definition fetch_github_data :: "env \<Rightarrow> world \<Rightarrow> ((exn + json) \<times> world) option" where
  "fetch_github_data env w =
     (case github_load_cache env w of
        (Inl e, w0) \<Rightarrow> Some (Inl e, w0)
      | (Inr cached_data, w0) \<Rightarrow>
          if truthy cached_data then Some (Inr cached_data, w0)
          else (case fetch_from_api env w0 of
                  None \<Rightarrow> None
                | Some (Inl e, w1) \<Rightarrow> Some (Inl e, w1)
                | Some (Inr result, w1) \<Rightarrow>
                    Some (bind_io (save_cache result env) (\<lambda>u. lift_io (Inr result)) w1)))"

subsection \<open>format_xbar_output and the entry point\<close>

fun monitored_lines :: "env \<Rightarrow> json list \<Rightarrow> exn + string list" where
  "monitored_lines env [] = Inr []"
| "monitored_lines env (repo # rest) =
     bind_res (subscript repo ''name'') (\<lambda>name.
     bind_res (subscript repo ''stars'') (\<lambda>stars.
     bind_res (subscript repo ''url'') (\<lambda>url.
     bind_res (monitored_lines env rest) (\<lambda>ls.
       Inr ((ICON_BULLET @ '' '' @ fstr env name @ '': '' @ ICON_STAR @ '' '' @ fstr env stars
             @ '' | href='' @ fstr env url @ '' color=#0969DA'') # ls)))))"

text \<open>The age shown for a star; \<open>diff\<close> is \<^verbatim>\<open>datetime.now() - timestamp\<close> in seconds,
  whose \<^verbatim>\<open>days\<close> and \<^verbatim>\<open>seconds\<close> are those of a normalised \<^verbatim>\<open>timedelta\<close>.\<close>

definition time_str :: "env \<Rightarrow> real \<Rightarrow> string" where
  "time_str env diff =
     (let days = \<lfloor>diff / 86400\<rfloor>; seconds = \<lfloor>diff - 86400 * of_int days\<rfloor>
      in if days > 0 then py_str env (JInt days) @ ''d ago''
         else if seconds div 3600 > 0 then py_str env (JInt (seconds div 3600)) @ ''h ago''
         else py_str env (JInt (seconds div 60)) @ ''m ago'')"

definition parse_time :: "env \<Rightarrow> json \<Rightarrow> exn + real" where
  "parse_time env t =
     (case t of
        JStr s \<Rightarrow> (case strptime env s of None \<Rightarrow> Inl ValueError | Some ts \<Rightarrow> Inr ts)
      | _ \<Rightarrow> Inl TypeError)"

fun star_lines :: "env \<Rightarrow> json list \<Rightarrow> string list io" where
  "star_lines env [] = lift_io (Inr [])"
| "star_lines env (star # rest) =
     bind_io (lift_io (bind_res (subscript star ''time'') (parse_time env))) (\<lambda>timestamp.
     bind_io (read_clock env) (\<lambda>now.
     bind_io (lift_io
       (bind_res (subscript star ''actor'') (\<lambda>actor.
        bind_res (subscript star ''repo_name'') (\<lambda>repo_name.
        bind_res (subscript star ''repo_url'') (\<lambda>repo_url.
          Inr (ICON_BULLET @ '' '' @ fstr env actor @ '' '' @ ICON_ARROW @ '' '' @ fstr env repo_name
               @ '' ('' @ time_str env (now - timestamp) @ '') | href='' @ fstr env repo_url
               @ '' color=#0969DA'')))))) (\<lambda>line.
     bind_io (star_lines env rest) (\<lambda>ls. lift_io (Inr (line # ls))))))"

definition github_footer :: "env \<Rightarrow> json \<Rightarrow> json \<Rightarrow> string list" where
  "github_footer env last_updated username =
     [''---'',
      ICON_CLOCK @ '' Last Updated: '' @ fstr env last_updated @ '' | color=#7F7F7F size=12'',
      ''---'',
      ICON_SEARCH @ '' View Profile | href=https://github.com/'' @ fstr env username,
      ''---'',
      ICON_REFRESH @ '' Refresh Data | refresh=true'']"

text \<open>\<^verbatim>\<open>format_xbar_output\<close> of the code-hosting plugin; the result is the list of
  lines that the source joins with line feeds.\<close>

definition github_format_xbar_output :: "env \<Rightarrow> json \<Rightarrow> string list io" where
  "github_format_xbar_output env github_data =
     bind_io (lift_io (subscript github_data ''username'')) (\<lambda>username.
     bind_io (lift_io (subscript github_data ''name'')) (\<lambda>name.
     bind_io (lift_io (subscript github_data ''stars_received'')) (\<lambda>stars_received.
     bind_io (lift_io (subscript github_data ''followers'')) (\<lambda>followers.
     bind_io (lift_io (subscript github_data ''monitored_repos'')) (\<lambda>monitored_repos.
     bind_io (lift_io (subscript github_data ''recent_stars'')) (\<lambda>recent_stars.
     bind_io (lift_io (dict_get github_data ''last_updated'' (JStr ''Unknown''))) (\<lambda>last_updated.
     bind_io (lift_io (subscript github_data ''public_repos'')) (\<lambda>public_repos.
     bind_io (lift_io (bind_res (py_iter monitored_repos) (monitored_lines env))) (\<lambda>mlines.
     bind_io (if truthy recent_stars
              then bind_io (lift_io (py_iter recent_stars)) (\<lambda>stars.
                   bind_io (star_lines env stars) (\<lambda>ls.
                     lift_io (Inr ([''---'',
                       ICON_BELL @ '' Recently Starred by People You Follow:''] @ ls))))
              else lift_io (Inr [])) (\<lambda>slines.
       lift_io (Inr (
         [ICON_STAR @ '' '' @ fstr env name @ '': '' @ fstr env stars_received
            @ '' | color=#6e5494 size=14'',
          ''---'',
          ICON_PERSON @ '' '' @ fstr env name @ '' (@'' @ fstr env username
            @ '') | color=#000000 size=14'',
          ''---'',
          ICON_CHART @ '' GitHub Statistics:'',
          ICON_STAR @ '' Total Stars Received: '' @ fstr env stars_received @ '' | color=#E3B341'',
          ICON_PEOPLE @ '' Followers: '' @ fstr env followers @ '' | color=#6e5494'',
          ICON_FOLDER @ '' Public Repositories: '' @ fstr env public_repos @ '' | color=#238636'',
          ''---'',
          ICON_PIN @ '' Monitored Repositories:'']
         @ mlines @ slines @ github_footer env last_updated username))))))))))))"

text \<open>The \<^verbatim>\<open>try\<close> block of the entry point.\<close>

definition github_try :: "env \<Rightarrow> world \<Rightarrow> ((exn + unit) \<times> world) option" where
  "github_try env w =
     (case fetch_github_data env w of
        None \<Rightarrow> None
      | Some (Inl e, w1) \<Rightarrow> Some (Inl e, w1)
      | Some (Inr github_data, w1) \<Rightarrow>
          Some (bind_io (github_format_xbar_output env github_data) print_lines w1))"

definition github_cached_title :: "env \<Rightarrow> json \<Rightarrow> exn + string" where
  "github_cached_title env cached_data =
     bind_res (subscript cached_data ''name'') (\<lambda>name.
     bind_res (subscript cached_data ''stars_received'') (\<lambda>stars_received.
       Inr (ICON_STAR @ '' '' @ fstr env name @ '': '' @ fstr env stars_received
            @ '' (cached) | color=#F4B400 size=14'')))"

text \<open>The \<^verbatim>\<open>except Exception as e\<close> block of the entry point. An exception raised
  here is caught by nobody.\<close>

definition github_handler :: "env \<Rightarrow> exn \<Rightarrow> unit io" where
  "github_handler env e =
     bind_io (github_load_cache env) (\<lambda>cached_data.
       if truthy cached_data
       then bind_io (lift_io (github_cached_title env cached_data)) (\<lambda>title.
            bind_io (print_lines [title]) (\<lambda>u.
            bind_io (print_lines [''---'']) (\<lambda>u.
            bind_io (print_lines [ICON_WARNING @ '' Using cached data | color=#F4B400'']) (\<lambda>u.
            bind_io (github_format_xbar_output env cached_data) (\<lambda>ls.
            bind_io (print_lines ls) (\<lambda>u.
            bind_io (print_lines [''---'']) (\<lambda>u.
              print_lines [ICON_CROSS @ '' Error: '' @ exn_str env e @ '' | color=#DB4437''])))))))
       else print_lines
              [ICON_CROSS @ '' GitHub | color=red'',
               ''---'',
               ''API Error: '' @ exn_str env e @ '' | color=#DB4437'',
               ''Please check your configuration and network | color=#7F7F7F'',
               ''---'',
               ICON_REFRESH @ '' Try Again | refresh=true''])"

text \<open>A run of the plugin: the exit status (0 when the script reaches its end, 1 when
  an exception is caught by nobody) and the final world.\<close>

definition github_main :: "env \<Rightarrow> world \<Rightarrow> (int \<times> world) option" where
  "github_main env w =
     (case github_try env w of
        None \<Rightarrow> None
      | Some (Inr u, w1) \<Rightarrow> Some (0, w1)
      | Some (Inl e, w1) \<Rightarrow>
          (case github_handler env e w1 of
             (Inr u, w2) \<Rightarrow> Some (0, w2)
           | (Inl e', w2) \<Rightarrow> Some (1, w2)))"

section \<open>The citation plugin (scholar.4h.py)\<close>

subsection \<open>Membership, length and indexing\<close>

fun contains_sub :: "string \<Rightarrow> string \<Rightarrow> bool" where
  "contains_sub k [] = (k = [])"
| "contains_sub k (c # cs) = (prefix k (c # cs) \<or> contains_sub k cs)"

text \<open>\<^verbatim>\<open>k in v\<close> for a string \<open>k\<close>: a key of a dictionary, an item of a list, a
  substring of a string; any other \<open>v\<close> is a \<^verbatim>\<open>TypeError\<close>.\<close>

fun py_in :: "string \<Rightarrow> json \<Rightarrow> exn + bool" where
  "py_in k (JObj kv) = Inr (map_of kv k \<noteq> None)"
| "py_in k (JArr xs) = Inr (List.member xs (JStr k))"
| "py_in k (JStr s) = Inr (contains_sub k s)"
| "py_in k v = Inl TypeError"

fun py_len :: "json \<Rightarrow> exn + nat" where
  "py_len (JArr xs) = Inr (length xs)"
| "py_len (JObj kv) = Inr (length kv)"
| "py_len (JStr s) = Inr (length s)"
| "py_len v = Inl TypeError"

text \<open>\<^verbatim>\<open>v[i]\<close> for one of the literal indices 0, 1, 2.\<close>

fun index_at :: "json \<Rightarrow> nat \<Rightarrow> exn + json" where
  "index_at (JArr xs) i = (if i < length xs then Inr (xs ! i) else Inl IndexError)"
| "index_at (JStr s) i = (if i < length s then Inr (JStr [s ! i]) else Inl IndexError)"
| "index_at (JObj kv) i = Inl (KeyError (JInt (int i)))"
| "index_at v i = Inl TypeError"

subsection \<open>fetch_scholar_data\<close>

definition scholar_request :: "env \<Rightarrow> request" where
  "scholar_request env =
     Get ''https://serpapi.com/search''
       [(''engine'', JStr ''google_scholar_author''), (''author_id'', JStr (SCHOLAR_ID env)),
        (''api_key'', JStr (SERP_API_KEY env))] []"

text \<open>The one \<^verbatim>\<open>requests.get\<close> of the citation plugin; the status of the answer is
  not looked at.\<close>

definition scholar_get :: "env \<Rightarrow> response io" where
  "scholar_get env w =
     (case net env (length (reqs w)) (scholar_request env) of
        Failed \<Rightarrow> (Inl ConnectionError, w\<lparr>reqs := reqs w @ [scholar_request env]\<rparr>)
      | Response r \<Rightarrow> (Inr r, w\<lparr>reqs := reqs w @ [scholar_request env]\<rparr>))"

definition author_name :: "json \<Rightarrow> exn + json" where
  "author_name data =
     bind_res (py_in ''author'' data) (\<lambda>has_author.
       if has_author
       then bind_res (subscript data ''author'') (\<lambda>author.
            bind_res (py_in ''name'' author) (\<lambda>has_name.
              if has_name then subscript author ''name'' else Inr (JStr ''Unknown'')))
       else Inr (JStr ''Unknown''))"

text \<open>One of the three statements that read the citation table: row \<open>i\<close>, key \<open>k\<close>.\<close>

definition table_stat :: "json \<Rightarrow> nat \<Rightarrow> string \<Rightarrow> exn + json" where
  "table_stat citation_table i k =
     bind_res (py_len citation_table) (\<lambda>n.
       if n > i
       then bind_res (index_at citation_table i) (\<lambda>row.
            bind_res (py_in k row) (\<lambda>present.
              if present
              then bind_res (subscript row k) (\<lambda>entry. subscript entry ''all'')
              else Inr (JInt 0)))
       else Inr (JInt 0))"

definition citation_stats :: "json \<Rightarrow> exn + json \<times> json \<times> json" where
  "citation_stats data =
     bind_res (py_in ''cited_by'' data) (\<lambda>has_cited.
       if has_cited
       then bind_res (subscript data ''cited_by'') (\<lambda>cited_by.
            bind_res (py_in ''table'' cited_by) (\<lambda>has_table.
              if has_table
              then bind_res (subscript cited_by ''table'') (\<lambda>citation_table.
                   bind_res (table_stat citation_table 0 ''citations'') (\<lambda>citations.
                   bind_res (table_stat citation_table 1 ''h_index'') (\<lambda>h_index.
                   bind_res (table_stat citation_table 2 ''i10_index'') (\<lambda>i10_index.
                     Inr (citations, h_index, i10_index)))))
              else Inr (JInt 0, JInt 0, JInt 0)))
       else Inr (JInt 0, JInt 0, JInt 0))"

text \<open>The loop over the citation graph: the first entry of the current year.\<close>

fun graph_loop :: "int \<Rightarrow> json list \<Rightarrow> exn + json" where
  "graph_loop current_year [] = Inr (JInt 0)"
| "graph_loop current_year (year_data # rest) =
     bind_res (dict_get year_data ''year'' JNull) (\<lambda>y.
       if num_of y = Some (of_int current_year) then dict_get year_data ''citations'' (JInt 0)
       else graph_loop current_year rest)"

definition current_year_citations :: "int \<Rightarrow> json \<Rightarrow> exn + json" where
  "current_year_citations current_year data =
     bind_res (py_in ''cited_by'' data) (\<lambda>has_cited.
       if has_cited
       then bind_res (subscript data ''cited_by'') (\<lambda>cited_by.
            bind_res (py_in ''graph'' cited_by) (\<lambda>has_graph.
              if has_graph
              then bind_res (subscript cited_by ''graph'') (\<lambda>graph.
                   bind_res (py_iter graph) (graph_loop current_year))
              else Inr (JInt 0)))
       else Inr (JInt 0))"

text \<open>From the decoded body to the result record: the error check, the defaults and
  the fields that replace them.\<close>

definition scholar_parse :: "env \<Rightarrow> json \<Rightarrow> json io" where
  "scholar_parse env data =
     bind_io (lift_io (py_in ''error'' data)) (\<lambda>has_error.
       if has_error
       then lift_io (bind_res (subscript data ''error'') (\<lambda>msg. Inl (SerpApiError msg)))
       else bind_io (read_clock env) (\<lambda>now.
            bind_io (lift_io (author_name data)) (\<lambda>name.
            bind_io (lift_io (citation_stats data)) (\<lambda>(citations, h_index, i10_index).
            bind_io (read_clock env) (\<lambda>today.
            bind_io (lift_io (current_year_citations (year_of env today) data)) (\<lambda>this_year.
              lift_io (Inr (JObj
                [(''name'', name), (''citations'', citations), (''h_index'', h_index),
                 (''i10_index'', i10_index), (''current_year_citations'', this_year),
                 (''last_updated'', JStr (strftime env now))]))))))))"

definition fetch_scholar_data :: "env \<Rightarrow> json io" where
  "fetch_scholar_data env =
     bind_io (scholar_load_cache env) (\<lambda>cached_data.
       if truthy cached_data then lift_io (Inr cached_data)
       else bind_io (scholar_get env) (\<lambda>response.
            bind_io (lift_io (response_json response)) (\<lambda>data.
            bind_io (scholar_parse env data) (\<lambda>result.
            bind_io (save_cache result env) (\<lambda>u. lift_io (Inr result))))))"

subsection \<open>format_xbar_output and the entry point\<close>

definition scholar_format_xbar_output :: "env \<Rightarrow> json \<Rightarrow> exn + string list" where
  "scholar_format_xbar_output env scholar_data =
     bind_res (subscript scholar_data ''name'') (\<lambda>name.
     bind_res (subscript scholar_data ''citations'') (\<lambda>citations.
     bind_res (subscript scholar_data ''h_index'') (\<lambda>h_index.
     bind_res (subscript scholar_data ''i10_index'') (\<lambda>i10_index.
     bind_res (subscript scholar_data ''current_year_citations'') (\<lambda>this_year.
     bind_res (dict_get scholar_data ''last_updated'' (JStr ''Unknown'')) (\<lambda>last_updated.
       Inr [SCHOLAR_ICON_BOOKS @ '' '' @ fstr env name @ '': '' @ fstr env citations
              @ '' | color=#4285F4 size=14'',
            ''---'',
            SCHOLAR_ICON_PERSON @ '' '' @ fstr env name @ '' | color=#000000 size=14'',
            ''---'',
            SCHOLAR_ICON_CHART @ '' Citation Statistics:'',
            ''Total Citations: '' @ fstr env citations @ '' | color=#0F9D58'',
            ''Citations This Year: '' @ fstr env this_year @ '' | color=#F4B400'',
            ''h-index: '' @ fstr env h_index @ '' | color=#DB4437'',
            ''i10-index: '' @ fstr env i10_index @ '' | color=#4285F4'',
            ''---'',
            SCHOLAR_ICON_CLOCK @ '' Last Updated: '' @ fstr env last_updated
              @ '' | color=#7F7F7F size=12'',
            ''---'',
            SCHOLAR_ICON_SEARCH
              @ '' View on Google Scholar | href=https://scholar.google.com/citations?user=''
              @ SCHOLAR_ID env,
            ''---'',
            SCHOLAR_ICON_REFRESH @ '' Refresh Data | refresh=true'']))))))"

definition scholar_try :: "env \<Rightarrow> unit io" where
  "scholar_try env =
     bind_io (fetch_scholar_data env) (\<lambda>scholar_data.
     bind_io (lift_io (scholar_format_xbar_output env scholar_data)) print_lines)"

definition scholar_cached_title :: "env \<Rightarrow> json \<Rightarrow> exn + string" where
  "scholar_cached_title env cached_data =
     bind_res (subscript cached_data ''name'') (\<lambda>name.
     bind_res (subscript cached_data ''citations'') (\<lambda>citations.
       Inr (SCHOLAR_ICON_PERSON @ '' '' @ fstr env name @ '': '' @ SCHOLAR_ICON_BOOKS @ '' ''
            @ fstr env citations @ '' (cached) | color=#F4B400 size=14'')))"

definition scholar_handler :: "env \<Rightarrow> exn \<Rightarrow> unit io" where
  "scholar_handler env e =
     bind_io (scholar_load_cache env) (\<lambda>cached_data.
       if truthy cached_data
       then bind_io (lift_io (scholar_cached_title env cached_data)) (\<lambda>title.
            bind_io (print_lines [title]) (\<lambda>u.
            bind_io (print_lines [''---'']) (\<lambda>u.
            bind_io (print_lines [SCHOLAR_ICON_WARNING @ '' Using cached data | color=#F4B400'']) (\<lambda>u.
            bind_io (lift_io (scholar_format_xbar_output env cached_data)) (\<lambda>ls.
            bind_io (print_lines ls) (\<lambda>u.
            bind_io (print_lines [''---'']) (\<lambda>u.
              print_lines [SCHOLAR_ICON_CROSS @ '' Error: '' @ exn_str env e
                           @ '' | color=#DB4437''])))))))
       else print_lines
              [SCHOLAR_ICON_CROSS @ '' Error | color=red'',
               ''---'',
               ''API Error: '' @ exn_str env e @ '' | color=#DB4437'',
               ''Please Check Your Network | color=#7F7F7F'',
               ''---'',
               SCHOLAR_ICON_REFRESH @ '' Try Again | refresh=true''])"

definition scholar_main :: "env \<Rightarrow> world \<Rightarrow> int \<times> world" where
  "scholar_main env w =
     (case scholar_try env w of
        (Inr u, w1) \<Rightarrow> (0, w1)
      | (Inl e, w1) \<Rightarrow>
          (case scholar_handler env e w1 of
             (Inr u, w2) \<Rightarrow> (0, w2)
           | (Inl e', w2) \<Rightarrow> (1, w2)))"

section \<open>Sample environments and worlds\<close>

text \<open>The library of the sample machines, on strings of the characters 0 to 255.
  \<^verbatim>\<open>str.strip()\<close> removes the characters of \<^verbatim>\<open>str.isspace()\<close> from both ends.
  \<^verbatim>\<open>int()\<close> accepts white space around the number (the white space of C, the
  next-line character and the no-break space), an optional sign, and decimal digits
  with single underscores between them; it raises \<^verbatim>\<open>ValueError\<close> for anything
  else, and for a number of more than 4300 digits.\<close>

definition str_space :: "char \<Rightarrow> bool" where
  "str_space c = (c \<in> set [CHR 0x20, CHR 0x09, CHR 0x0A, CHR 0x0B, CHR 0x0C, CHR 0x0D,
                            CHR 0x1C, CHR 0x1D, CHR 0x1E, CHR 0x1F, CHR 0x85, CHR 0xA0])"

definition int_space :: "char \<Rightarrow> bool" where
  "int_space c = (c \<in> set [CHR 0x20, CHR 0x09, CHR 0x0A, CHR 0x0B, CHR 0x0C, CHR 0x0D,
                            CHR 0x85, CHR 0xA0])"

definition sample_strip :: "string \<Rightarrow> string" where
  "sample_strip s = rev (dropWhile str_space (rev (dropWhile str_space s)))"

definition digit_of :: "char \<Rightarrow> nat option" where
  "digit_of c = (if c \<in> set ''0123456789'' then Some (of_char c - 48) else None)"

fun digits :: "nat \<Rightarrow> string \<Rightarrow> nat option" where
  "digits acc [] = Some acc"
| "digits acc [c] = (case digit_of c of None \<Rightarrow> None | Some d \<Rightarrow> Some (10 * acc + d))"
| "digits acc (c # u # cs) =
     (case digit_of c of
        None \<Rightarrow> None
      | Some d \<Rightarrow>
          if u = CHR ''_'' then (if cs = [] then None else digits (10 * acc + d) cs)
          else digits (10 * acc + d) (u # cs))"

definition sample_int :: "string \<Rightarrow> exn + int" where
  "sample_int s =
     (let t = rev (dropWhile int_space (rev (dropWhile int_space s)));
          neg = (take 1 t = ''-'');
          ds = (if take 1 t = ''-'' \<or> take 1 t = ''+'' then drop 1 t else t)
      in if ds = [] \<or> length (filter (\<lambda>c. c \<noteq> CHR ''_'') ds) > 4300 then Inl ValueError
         else (case digits 0 ds of
                 None \<Rightarrow> Inl ValueError
               | Some n \<Rightarrow> Inr (if neg then - int n else int n)))"

text \<open>A machine whose network is down: every request fails. The clock starts at
  epoch second 1700000000 and advances by one second per reading.\<close>

definition env0 :: env where
  "env0 =
     \<lparr>clock = (\<lambda>k. 1700000000 + real k),
      net = (\<lambda>k rq. Failed),
      writable = True,
      py_str = (\<lambda>v. ''<value>''),
      exn_str = (\<lambda>e. ''<error>''),
      py_int = sample_int,
      py_strip = sample_strip,
      strftime = (\<lambda>t. ''2023-11-14 22:13''),
      strptime = (\<lambda>s. None),
      year_of = (\<lambda>t. 2023),
      fromtimestamp = (\<lambda>n. None),
      GITHUB_USERNAME = ''octocat'',
      GITHUB_TOKEN = ''secret'',
      MONITORED_REPOS = [],
      SERP_API_KEY = ''key'',
      SCHOLAR_ID = ''abc''\<rparr>"

definition world0 :: world where
  "world0 = \<lparr>cache = Absent, ticks = 0, reqs = [], stdout = []\<rparr>"

text \<open>A cache file as \<^verbatim>\<open>save_cache\<close> writes it.\<close>

definition entry :: "real \<Rightarrow> json \<Rightarrow> json" where
  "entry t d = JObj [(''timestamp'', JFloat t), (''data'', d)]"

definition github_record :: json where
  "github_record =
     JObj [(''username'', JStr ''octocat''), (''name'', JStr ''The Octocat''),
           (''avatar_url'', JStr ''https://example.org/a.png''), (''followers'', JInt 10),
           (''following'', JInt 3), (''public_repos'', JInt 8), (''stars_received'', JInt 42),
           (''monitored_repos'', JArr []), (''recent_stars'', JArr []),
           (''last_updated'', JStr ''2023-11-14 19:26'')]"

definition scholar_record :: json where
  "scholar_record =
     JObj [(''name'', JStr ''A. Author''), (''citations'', JInt 120), (''h_index'', JInt 6),
           (''i10_index'', JInt 4), (''current_year_citations'', JInt 17),
           (''last_updated'', JStr ''2023-11-14 19:26'')]"

text \<open>A complete record written 10000 seconds before the run (older than the one-hour
  window of the code-hosting plugin), one written ten seconds before it, a fresh entry
  whose payload is an empty dictionary, and a fresh entry whose payload is not a result
  record.\<close>

definition stale_world :: world where
  "stale_world = world0\<lparr>cache := Holds (entry 1699990000 github_record)\<rparr>"

definition fresh_world :: world where
  "fresh_world = world0\<lparr>cache := Holds (entry 1699999990 github_record)\<rparr>"

definition empty_payload_world :: world where
  "empty_payload_world = world0\<lparr>cache := Holds (entry 1699999990 (JObj []))\<rparr>"

definition foreign_world :: world where
  "foreign_world = world0\<lparr>cache := Holds (entry 1699999990 (JObj [(''x'', JInt 1)]))\<rparr>"

text \<open>A cache file without a time stamp, and a machine whose clock reads 3600 (one
  hour after the epoch) at every reading.\<close>

definition undated_world :: world where
  "undated_world = world0\<lparr>cache := Holds (JObj [(''data'', github_record)])\<rparr>"

definition epoch_env :: env where
  "epoch_env = env0\<lparr>clock := (\<lambda>k. 3600)\<rparr>"

text \<open>A machine on which the cache file cannot be written.\<close>

definition readonly_env :: env where
  "readonly_env = env0\<lparr>writable := False\<rparr>"

text \<open>A server that answers every request with status 403 and an exhausted quota:
  once without the reset header, once with it.\<close>

definition limited_response :: response where
  "limited_response =
     \<lparr>status_code = 403, headers = map_of [(''x-ratelimit-remaining'', ''0'')],
      body = Some (JObj [(''message'', JStr ''API rate limit exceeded'')])\<rparr>"

definition limited_env :: env where
  "limited_env = env0\<lparr>net := (\<lambda>k rq. Response limited_response)\<rparr>"

definition reset_response :: response where
  "reset_response =
     \<lparr>status_code = 403,
      headers = map_of [(''x-ratelimit-remaining'', ''0''), (''x-ratelimit-reset'', ''1700003600'')],
      body = Some (JObj [(''message'', JStr ''API rate limit exceeded'')])\<rparr>"

definition reset_env :: env where
  "reset_env = env0\<lparr>net := (\<lambda>k rq. Response reset_response)\<rparr>"

text \<open>A server that answers every request with status 404, and one that answers with
  status 500 and an empty JSON object.\<close>

definition not_found_response :: response where
  "not_found_response =
     \<lparr>status_code = 404, headers = Map.empty, body = Some (JObj [(''message'', JStr ''Not Found'')])\<rparr>"

definition not_found_env :: env where
  "not_found_env = env0\<lparr>net := (\<lambda>k rq. Response not_found_response)\<rparr>"

definition error_page_response :: response where
  "error_page_response = \<lparr>status_code = 500, headers = Map.empty, body = Some (JObj [])\<rparr>"

definition error_page_env :: env where
  "error_page_env = env0\<lparr>net := (\<lambda>k rq. Response error_page_response)\<rparr>"

text \<open>The record of the citation plugin when every field keeps its default.\<close>

definition default_record :: "string \<Rightarrow> json" where
  "default_record updated =
     JObj [(''name'', JStr ''Unknown''), (''citations'', JInt 0), (''h_index'', JInt 0),
           (''i10_index'', JInt 0), (''current_year_citations'', JInt 0),
           (''last_updated'', JStr updated)]"

text \<open>
  The shape of a body that \<^verbatim>\<open>fetch_scholar_data\<close> reads without an exception: the
  \<^verbatim>\<open>author\<close> and \<^verbatim>\<open>cited_by\<close> entries, when present, are dictionaries; the table, when
  present, is a list whose first three rows are dictionaries in which the statistic
  of the row, when present, is a dictionary with the key \<^verbatim>\<open>all\<close>; the graph, when
  present, is a list of dictionaries.
\<close>

definition is_dict :: "json \<Rightarrow> bool" where
  "is_dict v = (case v of JObj kv \<Rightarrow> True | _ \<Rightarrow> False)"

definition row_ok :: "string \<Rightarrow> json \<Rightarrow> bool" where
  "row_ok k row =
     (case row of
        JObj r \<Rightarrow> (case map_of r k of
                     None \<Rightarrow> True
                   | Some e \<Rightarrow> (case e of JObj ekv \<Rightarrow> map_of ekv ''all'' \<noteq> None | _ \<Rightarrow> False))
      | _ \<Rightarrow> False)"

definition table_ok :: "json \<Rightarrow> bool" where
  "table_ok t =
     (case t of
        JArr rows \<Rightarrow>
          (length rows \<le> 0 \<or> row_ok ''citations'' (rows ! 0))
          \<and> (length rows \<le> 1 \<or> row_ok ''h_index'' (rows ! 1))
          \<and> (length rows \<le> 2 \<or> row_ok ''i10_index'' (rows ! 2))
      | _ \<Rightarrow> False)"

definition graph_ok :: "json \<Rightarrow> bool" where
  "graph_ok g = (case g of JArr ys \<Rightarrow> list_all is_dict ys | _ \<Rightarrow> False)"

definition cited_ok :: "json \<Rightarrow> bool" where
  "cited_ok c =
     (case c of
        JObj ckv \<Rightarrow>
          (case map_of ckv ''table'' of None \<Rightarrow> True | Some t \<Rightarrow> table_ok t)
          \<and> (case map_of ckv ''graph'' of None \<Rightarrow> True | Some g \<Rightarrow> graph_ok g)
      | _ \<Rightarrow> False)"

definition body_ok :: "(string \<times> json) list \<Rightarrow> bool" where
  "body_ok kv =
     ((case map_of kv ''author'' of None \<Rightarrow> True | Some a \<Rightarrow> is_dict a)
      \<and> (case map_of kv ''cited_by'' of None \<Rightarrow> True | Some c \<Rightarrow> cited_ok c))"

text \<open>The record the claim describes: each field of the answer where it is present, the
  default where it is absent.\<close>

fun member_or :: "json \<Rightarrow> string \<Rightarrow> json \<Rightarrow> json" where
  "member_or (JObj kv) k dflt = (case map_of kv k of None \<Rightarrow> dflt | Some v \<Rightarrow> v)"
| "member_or v k dflt = dflt"

definition spec_name :: "(string \<times> json) list \<Rightarrow> json" where
  "spec_name kv = member_or (member_or (JObj kv) ''author'' JNull) ''name'' (JStr ''Unknown'')"

definition row_stat :: "string \<Rightarrow> json \<Rightarrow> json" where
  "row_stat k row = member_or (member_or row k JNull) ''all'' (JInt 0)"

definition spec_stat :: "(string \<times> json) list \<Rightarrow> nat \<Rightarrow> string \<Rightarrow> json" where
  "spec_stat kv i k =
     (case member_or (member_or (JObj kv) ''cited_by'' JNull) ''table'' JNull of
        JArr rows \<Rightarrow> if i < length rows then row_stat k (rows ! i) else JInt 0
      | _ \<Rightarrow> JInt 0)"

definition spec_year_citations :: "(string \<times> json) list \<Rightarrow> int \<Rightarrow> json" where
  "spec_year_citations kv y =
     (case member_or (member_or (JObj kv) ''cited_by'' JNull) ''graph'' JNull of
        JArr ys \<Rightarrow>
          (case find (\<lambda>yd. num_of (member_or yd ''year'' JNull) = Some (of_int y)) ys of
             None \<Rightarrow> JInt 0
           | Some yd \<Rightarrow> member_or yd ''citations'' (JInt 0))
      | _ \<Rightarrow> JInt 0)"

definition spec_record :: "env \<Rightarrow> (string \<times> json) list \<Rightarrow> real \<Rightarrow> real \<Rightarrow> json" where
  "spec_record env kv now today =
     JObj [(''name'', spec_name kv), (''citations'', spec_stat kv 0 ''citations''),
           (''h_index'', spec_stat kv 1 ''h_index''),
           (''i10_index'', spec_stat kv 2 ''i10_index''),
           (''current_year_citations'', spec_year_citations kv (year_of env today)),
           (''last_updated'', JStr (strftime env now))]"

text \<open>A body without an \<^verbatim>\<open>error\<close> entry whose first table row has a \<^verbatim>\<open>citations\<close>
  entry without the key \<^verbatim>\<open>all\<close>, and a body of the shape the API documents.\<close>

definition bad_table_body :: json where
  "bad_table_body =
     JObj [(''cited_by'', JObj [(''table'', JArr [JObj [(''citations'', JObj [])]])])]"

definition bad_table_env :: env where
  "bad_table_env =
     env0\<lparr>net := (\<lambda>k rq. Response \<lparr>status_code = 200, headers = Map.empty, body = Some bad_table_body\<rparr>)\<rparr>"

definition author_body :: "(string \<times> json) list" where
  "author_body =
     [(''author'', JObj [(''name'', JStr ''A. Author'')]),
      (''cited_by'', JObj
         [(''table'', JArr [JObj [(''citations'', JObj [(''all'', JInt 120)])],
                            JObj [(''h_index'', JObj [(''all'', JInt 6)])]]),
          (''graph'', JArr [JObj [(''year'', JInt 2022), (''citations'', JInt 30)],
                            JObj [(''year'', JInt 2023), (''citations'', JInt 17)]])])]"

text \<open>A gateway error page (not JSON), and the API's own error answer.\<close>

definition html_response :: response where
  "html_response = \<lparr>status_code = 502, headers = Map.empty, body = None\<rparr>"

definition html_env :: env where
  "html_env = env0\<lparr>net := (\<lambda>k rq. Response html_response)\<rparr>"

definition serp_error_response :: response where
  "serp_error_response =
     \<lparr>status_code = 401, headers = Map.empty,
      body = Some (JObj [(''error'', JStr ''Invalid API key'')])\<rparr>"

definition serp_error_env :: env where
  "serp_error_env = env0\<lparr>net := (\<lambda>k rq. Response serp_error_response)\<rparr>"

definition author_env :: env where
  "author_env =
     env0\<lparr>net := (\<lambda>k rq. Response \<lparr>status_code = 200, headers = Map.empty, body = Some (JObj author_body)\<rparr>)\<rparr>"

text \<open>The request for one page of the repository list, and what it means that a server
  holds \<open>items\<close> and serves them in pages of 100: page \<open>p\<close> (from 1) is answered with
  status 200 and the items from position \<open>100 * (p - 1)\<close> on, at most 100 of them.\<close>

definition repos_request :: "env \<Rightarrow> int \<Rightarrow> request" where
  "repos_request env page = Get (REPOS_ENDPOINT env) (repos_params page) (github_headers env)"

definition serves_pages :: "env \<Rightarrow> json list \<Rightarrow> bool" where
  "serves_pages env items =
     (\<forall>k p. 1 \<le> p \<longrightarrow>
        (\<exists>r. net env k (repos_request env p) = Response r \<and> status_code r = 200
             \<and> body r = Some (JArr (take 100 (drop (100 * nat (p - 1)) items)))))"

text \<open>Such a server, holding \<open>n\<close> repositories.\<close>

definition paged_net :: "json list \<Rightarrow> nat \<Rightarrow> request \<Rightarrow> http_result" where
  "paged_net items k rq =
     (case rq of
        Get url params hs \<Rightarrow>
          (case map_of params ''page'' of
             Some (JInt p) \<Rightarrow>
               Response \<lparr>status_code = 200, headers = Map.empty,
                         body = Some (JArr (take 100 (drop (100 * nat (p - 1)) items)))\<rparr>
           | _ \<Rightarrow> Failed))"

definition repo_items :: "nat \<Rightarrow> json list" where
  "repo_items n =
     map (\<lambda>i. JObj [(''name'', JStr ''repo''), (''stargazers_count'', JInt (int i))]) [0..<n]"

definition paged_env :: "nat \<Rightarrow> env" where
  "paged_env n = env0\<lparr>net := paged_net (repo_items n)\<rparr>"

text \<open>What fetching may do to the world: read the clock and issue requests. The cache
  file and the output stay as they are, and the log of requests only grows.\<close>

definition only_fetches :: "world \<Rightarrow> world \<Rightarrow> bool" where
  "only_fetches w w' =
     (cache w' = cache w \<and> stdout w' = stdout w \<and> ticks w \<le> ticks w'
      \<and> prefix (reqs w) (reqs w'))"

definition user_request :: "env \<Rightarrow> request" where
  "user_request env = Get (USER_ENDPOINT env) [] (github_headers env)"

text \<open>Servers of the code-hosting API: all of them answer the request for the user
  with a profile. The first fails every other request; the second answers the first
  page of the repository list with an empty list and fails every other request (the
  events); the third answers everything but the user request with an empty list.\<close>

definition user_body :: json where
  "user_body =
     JObj [(''login'', JStr ''octocat''), (''name'', JStr ''The Octocat''),
           (''avatar_url'', JStr ''https://example.org/a.png''), (''followers'', JInt 10),
           (''following'', JInt 3), (''public_repos'', JInt 8)]"

definition user_response :: response where
  "user_response = \<lparr>status_code = 200, headers = Map.empty, body = Some user_body\<rparr>"

definition empty_list_response :: response where
  "empty_list_response = \<lparr>status_code = 200, headers = Map.empty, body = Some (JArr [])\<rparr>"

definition repos_down_env :: env where
  "repos_down_env =
     env0\<lparr>net := (\<lambda>k rq. if rq = user_request env0 then Response user_response else Failed)\<rparr>"

definition events_down_env :: env where
  "events_down_env =
     env0\<lparr>net := (\<lambda>k rq. if rq = user_request env0 then Response user_response
                        else if rq = repos_request env0 1 then Response empty_list_response
                        else Failed)\<rparr>"

definition quiet_env :: env where
  "quiet_env =
     env0\<lparr>net := (\<lambda>k rq. if rq = user_request env0 then Response user_response
                        else Response empty_list_response)\<rparr>"

definition events_request :: "env \<Rightarrow> request" where
  "events_request env =
     Get (RECEIVED_EVENTS_ENDPOINT env) [(''per_page'', JInt 30)] (github_headers env)"

text \<open>The record \<^verbatim>\<open>fetch_github_data\<close> assembles from the third server.\<close>

definition quiet_record :: json where
  "quiet_record =
     JObj [(''username'', JStr ''octocat''), (''name'', JStr ''The Octocat''),
           (''avatar_url'', JStr ''https://example.org/a.png''), (''followers'', JInt 10),
           (''following'', JInt 3), (''public_repos'', JInt 8), (''stars_received'', JInt 0),
           (''monitored_repos'', JArr []), (''recent_stars'', JArr []),
           (''last_updated'', JStr ''2023-11-14 22:13'')]"

text \<open>A fresh cache file of the citation plugin.\<close>

definition scholar_fresh_world :: world where
  "scholar_fresh_world = world0\<lparr>cache := Holds (entry 1699999990 scholar_record)\<rparr>"

section \<open>Properties of the cache store\<close>

text \<open>
  Claim C3, as amended. \<^verbatim>\<open>load_cache\<close> never raises, whatever the cache file holds.
  It returns \<^verbatim>\<open>None\<close> when the file is absent, unreadable or not JSON, when the JSON
  value is not a dictionary, when the \<^verbatim>\<open>data\<close> field is missing, when the
  \<^verbatim>\<open>timestamp\<close> field is not a number that converts to a float, and when the entry
  is older than the window. An entry without \<^verbatim>\<open>timestamp\<close> field counts as written
  at epoch second 0: it gives \<^verbatim>\<open>None\<close> when the clock reads more than the window, and
  its payload when the clock reads no more than that. For an entry with a time stamp
  no older than the window \<^verbatim>\<open>load_cache\<close> returns the stored payload. The window is a
  parameter: the statement holds for both plugins.
\<close>

theorem load_cache_fail_open:
  "(\<exists>v. fst (load_cache expiration env w) = Inr v)
   \<and> (cache w = Absent \<or> cache w = Unreadable \<or> cache w = Garbled
        \<longrightarrow> fst (load_cache expiration env w) = Inr JNull)
   \<and> (cache w = Holds j \<and> (\<forall>kv. j \<noteq> JObj kv)
        \<longrightarrow> fst (load_cache expiration env w) = Inr JNull)
   \<and> (cache w = Holds (JObj kv) \<and> map_of kv ''data'' = None
        \<longrightarrow> fst (load_cache expiration env w) = Inr JNull)
   \<and> (cache w = Holds (JObj kv) \<and> map_of kv ''timestamp'' = None
        \<and> expiration < clock env (ticks w)
        \<longrightarrow> fst (load_cache expiration env w) = Inr JNull)
   \<and> (cache w = Holds (JObj kv) \<and> map_of kv ''timestamp'' = None
        \<and> clock env (ticks w) \<le> expiration \<and> map_of kv ''data'' = Some d
        \<longrightarrow> fst (load_cache expiration env w) = Inr d)
   \<and> (cache w = Holds (JObj kv) \<and> map_of kv ''timestamp'' = Some ts \<and> float_of ts = Inl e
        \<longrightarrow> fst (load_cache expiration env w) = Inr JNull)
   \<and> (cache w = Holds (JObj kv) \<and> map_of kv ''timestamp'' = Some ts \<and> float_of ts = Inr t
        \<and> clock env (ticks w) - t > expiration
        \<longrightarrow> fst (load_cache expiration env w) = Inr JNull)
   \<and> (cache w = Holds (JObj kv) \<and> map_of kv ''timestamp'' = Some ts \<and> float_of ts = Inr t
        \<and> clock env (ticks w) - t \<le> expiration \<and> map_of kv ''data'' = Some d
        \<longrightarrow> fst (load_cache expiration env w) = Inr d)"
proof -
  have never: "\<exists>v. fst (load_cache expiration env w) = Inr v"
    by (simp add: load_cache_def split: file_state.split sum.split)
  have shape: "fst (load_cache expiration env w) = Inr JNull"
    if "cache w = Holds j" "\<forall>kv. j \<noteq> JObj kv" for j
    using that by (cases j) (simp_all add: load_cache_def load_cache_try_def)
  have nodata: "fst (load_cache expiration env w) = Inr JNull"
    if "cache w = Holds (JObj kv)" "map_of kv ''data'' = None"
    using that by (simp add: load_cache_def load_cache_try_def split: option.split sum.split)
  have undated: "fst (load_cache expiration env w)
                   = Inr (if expiration < clock env (ticks w) then JNull
                          else (case map_of kv ''data'' of None \<Rightarrow> JNull | Some d \<Rightarrow> d))"
    if "cache w = Holds (JObj kv)" "map_of kv ''timestamp'' = None"
    using that by (simp add: load_cache_def load_cache_try_def FLOAT_LIMIT_def)
  have dated: "fst (load_cache expiration env w)
                 = (case float_of ts of
                      Inl e \<Rightarrow> Inr JNull
                    | Inr t \<Rightarrow> Inr (if clock env (ticks w) - t > expiration then JNull
                                    else (case map_of kv ''data'' of None \<Rightarrow> JNull | Some d \<Rightarrow> d)))"
    if "cache w = Holds (JObj kv)" "map_of kv ''timestamp'' = Some ts"
    using that by (simp add: load_cache_def load_cache_try_def split: sum.split)
  have absent: "fst (load_cache expiration env w) = Inr JNull"
    if "cache w = Absent \<or> cache w = Unreadable \<or> cache w = Garbled"
    using that by (auto simp add: load_cache_def)
  show ?thesis
    using never shape nodata absent by (simp add: undated dated)
qed

text \<open>The claim as stated fails for an entry without time stamp: while the clock
  reads no more than the window, \<^verbatim>\<open>load_cache\<close> returns its payload, not \<^verbatim>\<open>None\<close>.\<close>

theorem load_cache_undated_counterexample:
  "cache undated_world = Holds (JObj [(''data'', github_record)])
   \<and> fst (github_load_cache epoch_env undated_world) = Inr github_record
   \<and> github_record \<noteq> JNull"
  by (simp add: github_load_cache_def load_cache_def load_cache_try_def undated_world_def
      world0_def epoch_env_def env0_def GITHUB_CACHE_EXPIRATION_def FLOAT_LIMIT_def
      github_record_def)

text \<open>The theorem at the absent file, at a file that holds a list, at entries without
  the payload and without the time stamp (at a clock beyond the window and at the
  clock that reads 3600), at entries whose time stamp is a string and an integer too
  large for a float, at a stale entry and at a fresh one.\<close>

theorem load_cache_fail_open_witness:
  "fst (github_load_cache env0 world0) = Inr JNull
   \<and> fst (github_load_cache env0 (world0\<lparr>cache := Holds (JArr [])\<rparr>)) = Inr JNull
   \<and> fst (github_load_cache env0
            (world0\<lparr>cache := Holds (JObj [(''timestamp'', JFloat 1699999990)])\<rparr>)) = Inr JNull
   \<and> fst (github_load_cache env0 undated_world) = Inr JNull
   \<and> fst (github_load_cache epoch_env undated_world) = Inr github_record
   \<and> fst (github_load_cache env0
            (world0\<lparr>cache := Holds (JObj [(''timestamp'', JStr ''now''),
                                           (''data'', github_record)])\<rparr>)) = Inr JNull
   \<and> fst (github_load_cache env0
            (world0\<lparr>cache := Holds (JObj [(''timestamp'', JInt (2 ^ 1024)),
                                           (''data'', github_record)])\<rparr>)) = Inr JNull
   \<and> fst (github_load_cache env0 stale_world) = Inr JNull
   \<and> fst (github_load_cache env0 fresh_world) = Inr github_record"
proof -
  have a: "cache world0 = Absent \<or> cache world0 = Unreadable \<or> cache world0 = Garbled"
    by (simp add: world0_def)
  have a1: "cache (world0\<lparr>cache := Holds (JArr [])\<rparr>) = Holds (JArr [])
            \<and> (\<forall>kv. JArr [] \<noteq> JObj kv)"
    by simp
  have a2: "cache (world0\<lparr>cache := Holds (JObj [(''timestamp'', JFloat 1699999990)])\<rparr>)
              = Holds (JObj [(''timestamp'', JFloat 1699999990)])
            \<and> map_of [(''timestamp'', JFloat 1699999990)] ''data'' = None"
    by simp
  have b: "cache undated_world = Holds (JObj [(''data'', github_record)])
           \<and> map_of [(''data'', github_record)] ''timestamp'' = None
           \<and> GITHUB_CACHE_EXPIRATION < clock env0 (ticks undated_world)"
    by (simp add: undated_world_def world0_def env0_def GITHUB_CACHE_EXPIRATION_def)
  have b0: "cache undated_world = Holds (JObj [(''data'', github_record)])
            \<and> map_of [(''data'', github_record)] ''timestamp'' = None
            \<and> clock epoch_env (ticks undated_world) \<le> GITHUB_CACHE_EXPIRATION
            \<and> map_of [(''data'', github_record)] ''data'' = Some github_record"
    by (simp add: undated_world_def world0_def epoch_env_def env0_def GITHUB_CACHE_EXPIRATION_def)
  have b1: "cache (world0\<lparr>cache := Holds (JObj [(''timestamp'', JStr ''now''),
                                                 (''data'', github_record)])\<rparr>)
              = Holds (JObj [(''timestamp'', JStr ''now''), (''data'', github_record)])
            \<and> map_of [(''timestamp'', JStr ''now''), (''data'', github_record)] ''timestamp''
                = Some (JStr ''now'')
            \<and> float_of (JStr ''now'') = Inl TypeError"
    by simp
  have b2: "cache (world0\<lparr>cache := Holds (JObj [(''timestamp'', JInt (2 ^ 1024)),
                                                 (''data'', github_record)])\<rparr>)
              = Holds (JObj [(''timestamp'', JInt (2 ^ 1024)), (''data'', github_record)])
            \<and> map_of [(''timestamp'', JInt (2 ^ 1024)), (''data'', github_record)] ''timestamp''
                = Some (JInt (2 ^ 1024))
            \<and> float_of (JInt (2 ^ 1024)) = Inl OverflowError"
    by (simp add: FLOAT_LIMIT_def)
  have c: "cache stale_world
             = Holds (JObj [(''timestamp'', JFloat 1699990000), (''data'', github_record)])
           \<and> map_of [(''timestamp'', JFloat 1699990000), (''data'', github_record)] ''timestamp''
               = Some (JFloat 1699990000)
           \<and> float_of (JFloat 1699990000) = Inr 1699990000
           \<and> clock env0 (ticks stale_world) - 1699990000 > GITHUB_CACHE_EXPIRATION"
    by (simp add: stale_world_def world0_def env0_def entry_def GITHUB_CACHE_EXPIRATION_def)
  have d: "cache fresh_world
             = Holds (JObj [(''timestamp'', JFloat 1699999990), (''data'', github_record)])
           \<and> map_of [(''timestamp'', JFloat 1699999990), (''data'', github_record)] ''timestamp''
               = Some (JFloat 1699999990)
           \<and> float_of (JFloat 1699999990) = Inr 1699999990
           \<and> clock env0 (ticks fresh_world) - 1699999990 \<le> GITHUB_CACHE_EXPIRATION
           \<and> map_of [(''timestamp'', JFloat 1699999990), (''data'', github_record)] ''data''
               = Some github_record"
    by (simp add: fresh_world_def world0_def env0_def entry_def GITHUB_CACHE_EXPIRATION_def)
  note inst = load_cache_fail_open[where expiration = GITHUB_CACHE_EXPIRATION]
  note t1 = inst[where env = env0 and w = world0,
      THEN conjunct2, THEN conjunct1, THEN mp, OF a]
  note s1 = inst[where env = env0 and w = "world0\<lparr>cache := Holds (JArr [])\<rparr>" and j = "JArr []",
      THEN conjunct2, THEN conjunct2, THEN conjunct1, THEN mp, OF a1]
  note s2 = inst[where env = env0
      and w = "world0\<lparr>cache := Holds (JObj [(''timestamp'', JFloat 1699999990)])\<rparr>"
      and kv = "[(''timestamp'', JFloat 1699999990)]",
      THEN conjunct2, THEN conjunct2, THEN conjunct2, THEN conjunct1, THEN mp, OF a2]
  note t2 = inst[where env = env0 and w = undated_world and kv = "[(''data'', github_record)]",
      THEN conjunct2, THEN conjunct2, THEN conjunct2, THEN conjunct2, THEN conjunct1, THEN mp, OF b]
  note t20 = inst[where env = epoch_env and w = undated_world and kv = "[(''data'', github_record)]"
      and d = github_record,
      THEN conjunct2, THEN conjunct2, THEN conjunct2, THEN conjunct2, THEN conjunct2,
      THEN conjunct1, THEN mp, OF b0]
  note s3 = inst[where env = env0
      and w = "world0\<lparr>cache := Holds (JObj [(''timestamp'', JStr ''now''), (''data'', github_record)])\<rparr>"
      and kv = "[(''timestamp'', JStr ''now''), (''data'', github_record)]" and ts = "JStr ''now''"
      and e = TypeError,
      THEN conjunct2, THEN conjunct2, THEN conjunct2, THEN conjunct2, THEN conjunct2,
      THEN conjunct2, THEN conjunct1, THEN mp, OF b1]
  note s4 = inst[where env = env0
      and w = "world0\<lparr>cache := Holds (JObj [(''timestamp'', JInt (2 ^ 1024)),
                                            (''data'', github_record)])\<rparr>"
      and kv = "[(''timestamp'', JInt (2 ^ 1024)), (''data'', github_record)]"
      and ts = "JInt (2 ^ 1024)" and e = OverflowError,
      THEN conjunct2, THEN conjunct2, THEN conjunct2, THEN conjunct2, THEN conjunct2,
      THEN conjunct2, THEN conjunct1, THEN mp, OF b2]
  note t3 = inst[where env = env0 and w = stale_world
      and kv = "[(''timestamp'', JFloat 1699990000), (''data'', github_record)]"
      and ts = "JFloat 1699990000" and t = 1699990000,
      THEN conjunct2, THEN conjunct2, THEN conjunct2, THEN conjunct2, THEN conjunct2,
      THEN conjunct2, THEN conjunct2, THEN conjunct1, THEN mp, OF c]
  note t4 = inst[where env = env0 and w = fresh_world
      and kv = "[(''timestamp'', JFloat 1699999990), (''data'', github_record)]"
      and ts = "JFloat 1699999990" and t = 1699999990 and d = github_record,
      THEN conjunct2, THEN conjunct2, THEN conjunct2, THEN conjunct2, THEN conjunct2,
      THEN conjunct2, THEN conjunct2, THEN conjunct2, THEN mp, OF d]
  show ?thesis unfolding github_load_cache_def by (intro conjI t1 s1 s2 t2 t20 s3 s4 t3 t4)
qed

text \<open>
  Claim C4, as amended. When the cache file can be written, saving a payload and
  loading it again returns exactly that payload, in both plugins, provided the clock
  advances by no more than the expiration window between the two calls. When the file
  cannot be written, \<^verbatim>\<open>save_cache\<close> swallows the failure and leaves the file as it
  was.
\<close>

theorem save_then_load_roundtrip:
  "(writable env \<and> clock env (Suc (ticks w)) - clock env (ticks w) \<le> GITHUB_CACHE_EXPIRATION
     \<longrightarrow> fst (github_load_cache env (snd (save_cache d env w))) = Inr d)
   \<and> (writable env \<and> clock env (Suc (ticks w)) - clock env (ticks w) \<le> SCHOLAR_CACHE_EXPIRATION
     \<longrightarrow> fst (scholar_load_cache env (snd (save_cache d env w))) = Inr d)
   \<and> (\<not> writable env \<longrightarrow> save_cache d env w = (Inr (), w\<lparr>ticks := Suc (ticks w)\<rparr>))"
  by (simp add: github_load_cache_def scholar_load_cache_def load_cache_def save_cache_def
      load_cache_try_def Let_def)

text \<open>The claim as stated fails when the cache file cannot be written: the payload
  saved is not the payload loaded, even one second later.\<close>

theorem save_unwritable_counterexample:
  "clock readonly_env (Suc (ticks world0)) - clock readonly_env (ticks world0)
     \<le> GITHUB_CACHE_EXPIRATION
   \<and> fst (github_load_cache readonly_env (snd (save_cache github_record readonly_env world0)))
       = Inr JNull
   \<and> github_record \<noteq> JNull"
  by (simp add: github_load_cache_def load_cache_def save_cache_def readonly_env_def env0_def
      world0_def GITHUB_CACHE_EXPIRATION_def github_record_def)

text \<open>The round trip of a complete record of either plugin, one second apart, and the
  save on the machine that cannot write.\<close>

theorem save_then_load_roundtrip_witness:
  "writable env0 \<and> clock env0 (Suc (ticks world0)) - clock env0 (ticks world0) \<le> GITHUB_CACHE_EXPIRATION
   \<and> fst (github_load_cache env0 (snd (save_cache github_record env0 world0))) = Inr github_record
   \<and> clock env0 (Suc (ticks world0)) - clock env0 (ticks world0) \<le> SCHOLAR_CACHE_EXPIRATION
   \<and> fst (scholar_load_cache env0 (snd (save_cache scholar_record env0 world0))) = Inr scholar_record
   \<and> \<not> writable readonly_env
   \<and> save_cache github_record readonly_env world0 = (Inr (), world0\<lparr>ticks := Suc (ticks world0)\<rparr>)"
proof -
  have w: "writable env0" by (simp add: env0_def)
  have g: "clock env0 (Suc (ticks world0)) - clock env0 (ticks world0) \<le> GITHUB_CACHE_EXPIRATION"
    by (simp add: env0_def world0_def GITHUB_CACHE_EXPIRATION_def)
  have s: "clock env0 (Suc (ticks world0)) - clock env0 (ticks world0) \<le> SCHOLAR_CACHE_EXPIRATION"
    by (simp add: env0_def world0_def SCHOLAR_CACHE_EXPIRATION_def)
  have r: "\<not> writable readonly_env" by (simp add: readonly_env_def)
  from save_then_load_roundtrip[of env0 world0 github_record]
    save_then_load_roundtrip[of env0 world0 scholar_record]
    save_then_load_roundtrip[of readonly_env world0 github_record] w g s r
  show ?thesis by simp
qed

section \<open>Properties of make_github_request\<close>

lemma sample_int_reset: "sample_int ''1700003600'' = Inr 1700003600"
  by (simp add: sample_int_def int_space_def digit_of_def)

lemma header_sample:
  "header_get (headers reset_response) ''X-RateLimit-Remaining'' = Some ''0''"
  "header_get (headers reset_response) ''X-RateLimit-Reset'' = Some ''1700003600''"
  "header_get (headers limited_response) ''X-RateLimit-Remaining'' = Some ''0''"
  "header_get (headers limited_response) ''X-RateLimit-Reset'' = None"
  by (simp_all add: header_get_def reset_response_def limited_response_def lower_char_def)

text \<open>What a response with status 403 and an exhausted quota makes of a request: the
  outcome of reading the reset header.\<close>

lemma limited_request:
  assumes "net env (length (reqs w)) (Get url params (github_headers env)) = Response r"
    and "status_code r = 403"
    and "header_get (headers r) ''X-RateLimit-Remaining'' = Some ''0''"
  shows "fst (make_github_request env url params w) =
           (case header_get (headers r) ''X-RateLimit-Reset'' of
              None \<Rightarrow> Inl (KeyError (JStr ''x-ratelimit-reset''))
            | Some s \<Rightarrow>
                (case py_int env s of
                   Inl e \<Rightarrow> Inl e
                 | Inr n \<Rightarrow> (case fromtimestamp env n of
                               Some e \<Rightarrow> Inl e
                             | None \<Rightarrow> Inl (RateLimited n))))"
  using assms
  by (simp add: make_github_request_def check_response_def rate_limit_check_def
      split: option.split sum.split)

text \<open>
  Claim C6, as amended. A response with status 403 whose \<^verbatim>\<open>X-RateLimit-Remaining\<close>
  header is \<^verbatim>\<open>"0"\<close> and whose \<^verbatim>\<open>X-RateLimit-Reset\<close> header is present and holds an
  integer (\<^verbatim>\<open>int()\<close> returns \<open>n\<close>) that \<^verbatim>\<open>datetime.fromtimestamp\<close> accepts makes
  \<^verbatim>\<open>make_github_request\<close> fail with the rate-limit exception carrying that reset time
  \<open>n\<close>, and not with the \<^verbatim>\<open>HTTPError\<close> of \<^verbatim>\<open>raise_for_status\<close>.
\<close>

theorem rate_limit_detected:
  "net env (length (reqs w)) (Get url params (github_headers env)) = Response r
   \<and> status_code r = 403 \<and> header_get (headers r) ''X-RateLimit-Remaining'' = Some ''0''
   \<and> header_get (headers r) ''X-RateLimit-Reset'' = Some s \<and> py_int env s = Inr n
   \<and> fromtimestamp env n = None
   \<longrightarrow> fst (make_github_request env url params w) = Inl (RateLimited n)
       \<and> fst (make_github_request env url params w) \<noteq> Inl (HTTPError r')"
proof (intro impI, elim conjE)
  assume a: "net env (length (reqs w)) (Get url params (github_headers env)) = Response r"
    "status_code r = 403" "header_get (headers r) ''X-RateLimit-Remaining'' = Some ''0''"
    and b: "header_get (headers r) ''X-RateLimit-Reset'' = Some s" "py_int env s = Inr n"
    "fromtimestamp env n = None"
  show "fst (make_github_request env url params w) = Inl (RateLimited n)
       \<and> fst (make_github_request env url params w) \<noteq> Inl (HTTPError r')"
    unfolding limited_request[OF a] by (simp add: b)
qed

text \<open>The claim as stated fails for a rate-limited response without the reset
  header: the exception is the \<^verbatim>\<open>KeyError\<close> of the header dictionary.\<close>

theorem rate_limit_missing_reset_counterexample:
  "fst (make_github_request limited_env (USER_ENDPOINT limited_env) [] world0)
     = Inl (KeyError (JStr ''x-ratelimit-reset''))"
  by (simp add: make_github_request_def check_response_def rate_limit_check_def limited_env_def
      env0_def world0_def header_sample limited_response_def[THEN arg_cong, of status_code])

text \<open>The theorem at a server that sends the reset header.\<close>

theorem rate_limit_detected_witness:
  "fst (make_github_request reset_env (USER_ENDPOINT reset_env) [] world0)
     = Inl (RateLimited 1700003600)
   \<and> fst (make_github_request reset_env (USER_ENDPOINT reset_env) [] world0)
     \<noteq> Inl (HTTPError reset_response)"
proof -
  have a: "net reset_env (length (reqs world0))
             (Get (USER_ENDPOINT reset_env) [] (github_headers reset_env)) = Response reset_response
           \<and> status_code reset_response = 403
           \<and> header_get (headers reset_response) ''X-RateLimit-Remaining'' = Some ''0''
           \<and> header_get (headers reset_response) ''X-RateLimit-Reset'' = Some ''1700003600''
           \<and> py_int reset_env ''1700003600'' = Inr 1700003600
           \<and> fromtimestamp reset_env 1700003600 = None"
    by (simp add: reset_env_def env0_def header_sample sample_int_reset
        reset_response_def[THEN arg_cong, of status_code])
  show ?thesis
    by (rule rate_limit_detected[where env = reset_env and w = world0
          and url = "USER_ENDPOINT reset_env" and params = "[]" and r = reset_response
          and s = "''1700003600''" and n = 1700003600 and r' = reset_response, THEN mp, OF a])
qed

section \<open>Properties of the fetchers' error handling\<close>

lemmas io_defs = bind_io_def lift_io_def bind_res_def read_clock_def print_lines_def

lemma http_error_request:
  assumes "net env (length (reqs w)) (Get url params (github_headers env)) = Response r"
    and "400 \<le> status_code r" and "status_code r < 600"
    and "\<not> (status_code r = 403 \<and> header_get (headers r) ''X-RateLimit-Remaining'' = Some ''0'')"
  shows "fst (make_github_request env url params w) = Inl (HTTPError r)"
  using assms
  by (simp add: make_github_request_def check_response_def rate_limit_check_def
      raise_for_status_def)

text \<open>After a cache miss the citation plugin issues its request; what it returns is
  decided by the body of the answer alone.\<close>

lemma scholar_miss:
  assumes "scholar_load_cache env w = (Inr c, w0)" and "\<not> truthy c"
    and "net env (length (reqs w0)) (scholar_request env) = Response r"
  shows "fetch_scholar_data env w =
           (case body r of
              None \<Rightarrow> (Inl JSONDecodeError, w0\<lparr>reqs := reqs w0 @ [scholar_request env]\<rparr>)
            | Some d \<Rightarrow>
                bind_io (scholar_parse env d)
                  (\<lambda>result. bind_io (save_cache result env) (\<lambda>u. lift_io (Inr result)))
                  (w0\<lparr>reqs := reqs w0 @ [scholar_request env]\<rparr>))"
  using assms
  by (simp add: fetch_scholar_data_def scholar_get_def response_json_def bind_io_def lift_io_def
      split: option.split)

lemma save_keeps_result:
  "fst (bind_io m (\<lambda>result. bind_io (save_cache result env) (\<lambda>u. lift_io (Inr result))) w)
     = fst (m w)"
  by (simp add: bind_io_def lift_io_def save_cache_def Let_def split: prod.split sum.split)

lemma scholar_miss_result:
  assumes "scholar_load_cache env w = (Inr c, w0)" and "\<not> truthy c"
    and "net env (length (reqs w0)) (scholar_request env) = Response r"
  shows "fst (fetch_scholar_data env w) =
           (case body r of
              None \<Rightarrow> Inl JSONDecodeError
            | Some d \<Rightarrow> fst (scholar_parse env d (w0\<lparr>reqs := reqs w0 @ [scholar_request env]\<rparr>)))"
  by (simp add: scholar_miss[OF assms] save_keeps_result split: option.split)

text \<open>
  Claim C7, as amended. For a response with a status from 400 to 599 that is not the
  rate-limit case, \<^verbatim>\<open>make_github_request\<close> fails with the \<^verbatim>\<open>HTTPError\<close> that carries
  the response (its status and its body). The citation plugin never looks at the
  status: after a cache miss \<^verbatim>\<open>fetch_scholar_data\<close> fails with a decoding error when
  the body is not JSON, and otherwise does whatever the decoded body makes it do,
  whatever the status.
\<close>

theorem http_status_handling:
  "(net env (length (reqs w)) (Get url params (github_headers env)) = Response r
    \<and> 400 \<le> status_code r \<and> status_code r < 600
    \<and> \<not> (status_code r = 403 \<and> header_get (headers r) ''X-RateLimit-Remaining'' = Some ''0'')
    \<longrightarrow> fst (make_github_request env url params w) = Inl (HTTPError r))
   \<and> (scholar_load_cache env w = (Inr c, w0) \<and> \<not> truthy c
      \<and> net env (length (reqs w0)) (scholar_request env) = Response r
      \<longrightarrow> fst (fetch_scholar_data env w) =
            (case body r of
               None \<Rightarrow> Inl JSONDecodeError
             | Some d \<Rightarrow> fst (scholar_parse env d (w0\<lparr>reqs := reqs w0 @ [scholar_request env]\<rparr>))))"
  using http_error_request[of env w url params r] scholar_miss_result[of env w c w0 r]
  by blast

lemmas scholar_defs = fetch_scholar_data_def scholar_get_def scholar_parse_def author_name_def
  citation_stats_def current_year_citations_def response_json_def scholar_load_cache_def
  load_cache_def save_cache_def

text \<open>The claim as stated fails for the citation plugin: an answer with status 500
  and an empty JSON object as its body makes \<^verbatim>\<open>fetch_scholar_data\<close> succeed, with a
  record of defaults.\<close>

theorem scholar_ignores_status_counterexample:
  "fst (fetch_scholar_data error_page_env world0) = Inr (default_record ''2023-11-14 22:13'')"
  by (simp add: scholar_defs io_defs error_page_env_def error_page_response_def env0_def
      world0_def default_record_def)

text \<open>Both parts at a concrete server: a 404 for the code-hosting plugin, the 500 with
  a JSON body for the citation plugin.\<close>

theorem http_status_handling_witness:
  "fst (make_github_request not_found_env (USER_ENDPOINT not_found_env) [] world0)
     = Inl (HTTPError not_found_response)
   \<and> fst (fetch_scholar_data error_page_env world0)
     = fst (scholar_parse error_page_env (JObj [])
             (world0\<lparr>reqs := reqs world0 @ [scholar_request error_page_env]\<rparr>))"
proof -
  have a: "net not_found_env (length (reqs world0))
             (Get (USER_ENDPOINT not_found_env) [] (github_headers not_found_env))
             = Response not_found_response
           \<and> 400 \<le> status_code not_found_response \<and> status_code not_found_response < 600
           \<and> \<not> (status_code not_found_response = 403
                \<and> header_get (headers not_found_response) ''X-RateLimit-Remaining'' = Some ''0'')"
    by (simp add: not_found_env_def env0_def not_found_response_def)
  have b: "scholar_load_cache error_page_env world0 = (Inr JNull, world0) \<and> \<not> truthy JNull
           \<and> net error_page_env (length (reqs world0)) (scholar_request error_page_env)
               = Response error_page_response"
    by (simp add: scholar_load_cache_def load_cache_def world0_def error_page_env_def env0_def)
  have c: "body error_page_response = Some (JObj [])"
    by (simp add: error_page_response_def)
  note t1 = http_status_handling[of not_found_env world0 "USER_ENDPOINT not_found_env" "[]"
      not_found_response, THEN conjunct1, THEN mp, OF a]
  note t2 = http_status_handling[of error_page_env world0 _ _ error_page_response JNull world0,
      THEN conjunct2, THEN mp, OF b]
  show ?thesis using t1 t2 by (simp add: c)
qed


section \<open>Properties of fetch_scholar_data\<close>

lemma author_name_ok:
  "(case map_of kv ''author'' of None \<Rightarrow> True | Some a \<Rightarrow> is_dict a)
   \<Longrightarrow> author_name (JObj kv) = Inr (spec_name kv)"
  by (simp add: author_name_def spec_name_def bind_res_def is_dict_def
      split: option.splits json.splits)

lemma table_stat_short: "length rows \<le> i \<Longrightarrow> table_stat (JArr rows) i k = Inr (JInt 0)"
  by (simp add: table_stat_def bind_res_def)

lemma table_stat_row:
  assumes "i < length rows" and "row_ok k (rows ! i)"
  shows "table_stat (JArr rows) i k = Inr (row_stat k (rows ! i))"
proof -
  from assms(2) obtain r where row: "rows ! i = JObj r"
    by (cases "rows ! i") (simp_all add: row_ok_def)
  show ?thesis
  proof (cases "map_of r k")
    case None
    with assms(1) row show ?thesis
      by (simp add: table_stat_def bind_res_def row_stat_def)
  next
    case (Some e)
    with assms(2) row obtain ekv v where e: "e = JObj ekv" and v: "map_of ekv ''all'' = Some v"
      by (cases e) (auto simp add: row_ok_def)
    from assms(1) row Some e v show ?thesis
      by (simp add: table_stat_def bind_res_def row_stat_def)
  qed
qed

lemma table_stat_spec:
  "length rows \<le> i \<or> row_ok k (rows ! i)
   \<Longrightarrow> table_stat (JArr rows) i k = Inr (if i < length rows then row_stat k (rows ! i) else JInt 0)"
  using table_stat_short[of rows i k] table_stat_row[of i rows k] by (cases "i < length rows") auto

lemma graph_loop_ok:
  "list_all is_dict ys
   \<Longrightarrow> graph_loop y ys =
         Inr (case find (\<lambda>yd. num_of (member_or yd ''year'' JNull) = Some (of_int y)) ys of
                None \<Rightarrow> JInt 0
              | Some yd \<Rightarrow> member_or yd ''citations'' (JInt 0))"
proof (induction ys)
  case Nil
  show ?case by simp
next
  case (Cons yd ys)
  from Cons.prems obtain kv where yd: "yd = JObj kv"
    by (cases yd) (simp_all add: is_dict_def)
  from Cons show ?case by (simp add: yd bind_res_def)
qed

lemma citation_stats_ok:
  assumes "case map_of kv ''cited_by'' of None \<Rightarrow> True | Some c \<Rightarrow> cited_ok c"
  shows "citation_stats (JObj kv) =
           Inr (spec_stat kv 0 ''citations'', spec_stat kv 1 ''h_index'',
                spec_stat kv 2 ''i10_index'')"
proof (cases "map_of kv ''cited_by''")
  case None
  then show ?thesis by (simp add: citation_stats_def spec_stat_def bind_res_def)
next
  case (Some c)
  with assms obtain ckv where c: "c = JObj ckv"
    and t: "case map_of ckv ''table'' of None \<Rightarrow> True | Some t \<Rightarrow> table_ok t"
    by (cases c) (simp_all add: cited_ok_def)
  show ?thesis
  proof (cases "map_of ckv ''table''")
    case None
    with Some c show ?thesis by (simp add: citation_stats_def spec_stat_def bind_res_def)
  next
    case (Some tb)
    with t obtain rows where tb: "tb = JArr rows"
      and r0: "length rows \<le> 0 \<or> row_ok ''citations'' (rows ! 0)"
      and r1: "length rows \<le> 1 \<or> row_ok ''h_index'' (rows ! 1)"
      and r2: "length rows \<le> 2 \<or> row_ok ''i10_index'' (rows ! 2)"
      by (cases tb) (simp_all add: table_ok_def)
    have s0: "table_stat (JArr rows) 0 ''citations''
                = Inr (if 0 < length rows then row_stat ''citations'' (rows ! 0) else JInt 0)"
      by (rule table_stat_spec[OF r0])
    have s1: "table_stat (JArr rows) (Suc 0) ''h_index''
                = Inr (if Suc 0 < length rows then row_stat ''h_index'' (rows ! Suc 0) else JInt 0)"
      using table_stat_spec[OF r1] by simp
    have s2: "table_stat (JArr rows) 2 ''i10_index''
                = Inr (if 2 < length rows then row_stat ''i10_index'' (rows ! 2) else JInt 0)"
      by (rule table_stat_spec[OF r2])
    from \<open>map_of kv ''cited_by'' = Some c\<close> c Some tb show ?thesis
      by (simp add: citation_stats_def spec_stat_def bind_res_def s0 s1 s2)
  qed
qed

lemma current_year_ok:
  assumes "case map_of kv ''cited_by'' of None \<Rightarrow> True | Some c \<Rightarrow> cited_ok c"
  shows "current_year_citations y (JObj kv) = Inr (spec_year_citations kv y)"
proof (cases "map_of kv ''cited_by''")
  case None
  then show ?thesis by (simp add: current_year_citations_def spec_year_citations_def bind_res_def)
next
  case (Some c)
  with assms obtain ckv where c: "c = JObj ckv"
    and g: "case map_of ckv ''graph'' of None \<Rightarrow> True | Some g \<Rightarrow> graph_ok g"
    by (cases c) (simp_all add: cited_ok_def)
  show ?thesis
  proof (cases "map_of ckv ''graph''")
    case None
    with Some c show ?thesis
      by (simp add: current_year_citations_def spec_year_citations_def bind_res_def)
  next
    case (Some gr)
    with g obtain ys where gr: "gr = JArr ys" and ys: "list_all is_dict ys"
      by (cases gr) (simp_all add: graph_ok_def)
    from \<open>map_of kv ''cited_by'' = Some c\<close> c Some gr show ?thesis
      by (simp add: current_year_citations_def spec_year_citations_def bind_res_def
          graph_loop_ok[OF ys])
  qed
qed

lemma scholar_parse_ok:
  assumes "map_of kv ''error'' = None" and "body_ok kv"
  shows "scholar_parse env (JObj kv) w =
           (Inr (spec_record env kv (clock env (ticks w)) (clock env (Suc (ticks w)))),
            w\<lparr>ticks := Suc (Suc (ticks w))\<rparr>)"
proof -
  from assms(2) have a: "case map_of kv ''author'' of None \<Rightarrow> True | Some a \<Rightarrow> is_dict a"
    and c: "case map_of kv ''cited_by'' of None \<Rightarrow> True | Some c \<Rightarrow> cited_ok c"
    by (simp_all add: body_ok_def)
  show ?thesis
    by (simp add: scholar_parse_def io_defs assms(1) author_name_ok[OF a] citation_stats_ok[OF c]
        current_year_ok[OF c] spec_record_def)
qed

lemma scholar_parse_error:
  "map_of kv ''error'' = Some v \<Longrightarrow> fst (scholar_parse env (JObj kv) w) = Inl (SerpApiError v)"
  by (simp add: scholar_parse_def io_defs)

text \<open>
  Claim C10, as amended. After a cache miss, \<^verbatim>\<open>fetch_scholar_data\<close> raises when the
  body is not JSON and when the decoded dictionary has an \<^verbatim>\<open>error\<close> entry (the
  exception then carries that entry). For a dictionary without an \<^verbatim>\<open>error\<close> entry
  whose present fields have the shape \<open>body_ok\<close>, it succeeds and returns the complete
  record \<open>spec_record\<close>: every field that is present, \<^verbatim>\<open>"Unknown"\<close> for an absent name
  and zero for every absent statistic.
\<close>

theorem scholar_body_handling:
  "scholar_load_cache env w = (Inr c, w0) \<and> \<not> truthy c
   \<and> net env (length (reqs w0)) (scholar_request env) = Response r
   \<longrightarrow>
     (body r = None \<longrightarrow> fst (fetch_scholar_data env w) = Inl JSONDecodeError)
     \<and> (body r = Some (JObj kv) \<and> map_of kv ''error'' = Some v
          \<longrightarrow> fst (fetch_scholar_data env w) = Inl (SerpApiError v))
     \<and> (body r = Some (JObj kv) \<and> map_of kv ''error'' = None \<and> body_ok kv
          \<longrightarrow> fst (fetch_scholar_data env w)
               = Inr (spec_record env kv (clock env (ticks w0)) (clock env (Suc (ticks w0)))))"
proof (intro impI, elim conjE)
  assume a: "scholar_load_cache env w = (Inr c, w0)" "\<not> truthy c"
    "net env (length (reqs w0)) (scholar_request env) = Response r"
  note eq = scholar_miss_result[OF a]
  show "(body r = None \<longrightarrow> fst (fetch_scholar_data env w) = Inl JSONDecodeError)
     \<and> (body r = Some (JObj kv) \<and> map_of kv ''error'' = Some v
          \<longrightarrow> fst (fetch_scholar_data env w) = Inl (SerpApiError v))
     \<and> (body r = Some (JObj kv) \<and> map_of kv ''error'' = None \<and> body_ok kv
          \<longrightarrow> fst (fetch_scholar_data env w)
               = Inr (spec_record env kv (clock env (ticks w0)) (clock env (Suc (ticks w0)))))"
    unfolding eq by (simp add: scholar_parse_error scholar_parse_ok)
qed

text \<open>The claim as stated fails: a JSON body without an \<^verbatim>\<open>error\<close> entry whose first
  table row has a \<^verbatim>\<open>citations\<close> entry without the key \<^verbatim>\<open>all\<close> raises a
  \<^verbatim>\<open>KeyError\<close>.\<close>

theorem scholar_mis_shaped_counterexample:
  "fst (fetch_scholar_data bad_table_env world0) = Inl (KeyError (JStr ''all''))"
  by (simp add: scholar_defs io_defs bad_table_env_def bad_table_body_def env0_def world0_def
      table_stat_def)

lemma author_body_ok: "map_of author_body ''error'' = None \<and> body_ok author_body"
  by (simp add: author_body_def body_ok_def is_dict_def cited_ok_def table_ok_def graph_ok_def
      row_ok_def)

lemma author_body_record:
  "spec_record author_env author_body 1700000000 1700000001 =
     JObj [(''name'', JStr ''A. Author''), (''citations'', JInt 120), (''h_index'', JInt 6),
           (''i10_index'', JInt 0), (''current_year_citations'', JInt 17),
           (''last_updated'', JStr ''2023-11-14 22:13'')]"
  by (simp add: spec_record_def spec_name_def spec_stat_def spec_year_citations_def row_stat_def
      author_body_def author_env_def env0_def)

text \<open>A body with a name, two table rows and a graph: the third statistic is absent
  and becomes zero. A body that is not JSON and a body with an \<^verbatim>\<open>error\<close> entry raise.\<close>

theorem scholar_body_handling_witness:
  "fst (fetch_scholar_data author_env world0) =
     Inr (JObj [(''name'', JStr ''A. Author''), (''citations'', JInt 120), (''h_index'', JInt 6),
                (''i10_index'', JInt 0), (''current_year_citations'', JInt 17),
                (''last_updated'', JStr ''2023-11-14 22:13'')])
   \<and> fst (fetch_scholar_data html_env world0) = Inl JSONDecodeError
   \<and> fst (fetch_scholar_data serp_error_env world0) = Inl (SerpApiError (JStr ''Invalid API key''))"
proof -
  have a: "scholar_load_cache author_env world0 = (Inr JNull, world0) \<and> \<not> truthy JNull
           \<and> net author_env (length (reqs world0)) (scholar_request author_env)
               = Response \<lparr>status_code = 200, headers = Map.empty, body = Some (JObj author_body)\<rparr>"
    by (simp add: scholar_load_cache_def load_cache_def world0_def author_env_def env0_def)
  have b: "body \<lparr>status_code = 200, headers = Map.empty, body = Some (JObj author_body)\<rparr>
             = Some (JObj author_body)
           \<and> map_of author_body ''error'' = None \<and> body_ok author_body"
    using author_body_ok by simp
  have t: "clock author_env (ticks world0) = 1700000000
           \<and> clock author_env (Suc (ticks world0)) = 1700000001"
    by (simp add: author_env_def env0_def world0_def)
  have a1: "scholar_load_cache html_env world0 = (Inr JNull, world0) \<and> \<not> truthy JNull
            \<and> net html_env (length (reqs world0)) (scholar_request html_env)
                = Response html_response"
    by (simp add: scholar_load_cache_def load_cache_def world0_def html_env_def env0_def)
  have b1: "body html_response = None"
    by (simp add: html_response_def)
  have a2: "scholar_load_cache serp_error_env world0 = (Inr JNull, world0) \<and> \<not> truthy JNull
            \<and> net serp_error_env (length (reqs world0)) (scholar_request serp_error_env)
                = Response serp_error_response"
    by (simp add: scholar_load_cache_def load_cache_def world0_def serp_error_env_def env0_def)
  have b2: "body serp_error_response = Some (JObj [(''error'', JStr ''Invalid API key'')])
            \<and> map_of [(''error'', JStr ''Invalid API key'')] ''error''
                = Some (JStr ''Invalid API key'')"
    by (simp add: serp_error_response_def)
  note r = scholar_body_handling[of author_env world0 JNull world0
      "\<lparr>status_code = 200, headers = Map.empty, body = Some (JObj author_body)\<rparr>" author_body,
      THEN mp, OF a, THEN conjunct2, THEN conjunct2, THEN mp, OF b]
  note r1 = scholar_body_handling[of html_env world0 JNull world0 html_response,
      THEN mp, OF a1, THEN conjunct1, THEN mp, OF b1]
  note r2 = scholar_body_handling[of serp_error_env world0 JNull world0 serp_error_response
      "[(''error'', JStr ''Invalid API key'')]" "JStr ''Invalid API key''",
      THEN mp, OF a2, THEN conjunct2, THEN conjunct1, THEN mp, OF b2]
  have r': "fst (fetch_scholar_data author_env world0) =
     Inr (JObj [(''name'', JStr ''A. Author''), (''citations'', JInt 120), (''h_index'', JInt 6),
                (''i10_index'', JInt 0), (''current_year_citations'', JInt 17),
                (''last_updated'', JStr ''2023-11-14 22:13'')])"
    using r by (simp only: t author_body_record)
  show ?thesis by (intro conjI r' r1 r2)
qed

section \<open>Properties of fetch_repos_data\<close>

lemma page_request:
  assumes "serves_pages env items" and "1 \<le> p"
  shows "make_github_request env (REPOS_ENDPOINT env) (repos_params p) w =
           (Inr (JArr (take 100 (drop (100 * nat (p - 1)) items))),
            w\<lparr>reqs := reqs w @ [repos_request env p]\<rparr>)"
proof -
  from assms obtain r where r: "net env (length (reqs w)) (repos_request env p) = Response r"
    "status_code r = 200" "body r = Some (JArr (take 100 (drop (100 * nat (p - 1)) items)))"
    unfolding serves_pages_def by blast
  then show ?thesis
    by (simp add: make_github_request_def check_response_def rate_limit_check_def
        raise_for_status_def response_json_def repos_request_def)
qed

lemma pages_count: "0 < n \<Longrightarrow> (n + 99) div 100 = Suc ((n - 100 + 99) div (100::nat))"
  by (cases "100 \<le> n") (simp_all add: div_add_self2 le_div_geq)

lemma repos_loop_paged:
  assumes "serves_pages env items"
  shows "1 \<le> p \<Longrightarrow>
         repos_loop env p acc w =
           Some (Inr (acc @ drop (100 * nat (p - 1)) items),
                 w\<lparr>reqs := reqs w @ map (repos_request env)
                     [p .. p + int ((length (drop (100 * nat (p - 1)) items) + 99) div 100)]\<rparr>)"
proof (induction "length (drop (100 * nat (p - 1)) items)" arbitrary: p acc w rule: less_induct)
  case less
  let ?rest = "drop (100 * nat (p - 1)) items"
  note rq = page_request[OF assms less.prems, of w]
  show ?case
  proof (cases "?rest = []")
    case True
    then show ?thesis
      by (subst repos_loop.simps) (simp add: rq)
  next
    case False
    have nxt: "drop (100 * nat (p + 1 - 1)) items = drop 100 ?rest"
      using less.prems by (simp add: nat_diff_distrib' algebra_simps)
    have shorter: "length (drop (100 * nat (p + 1 - 1)) items) < length ?rest"
      using False unfolding nxt by simp
    have "1 \<le> p + 1" using less.prems by simp
    note ih = less.hyps[OF shorter this]
    have cnt: "(length ?rest + 99) div 100 = Suc ((length (drop 100 ?rest) + 99) div 100)"
    proof -
      have pos: "0 < length ?rest" using False by simp
      show ?thesis unfolding length_drop[of 100 "?rest"] by (rule pages_count[OF pos])
    qed
    have pages: "[p .. p + int (Suc k)] = p # [p + 1 .. p + 1 + int k]" for k
      by (subst upto_rec1) (simp_all add: add.assoc)
    have "repos_loop env p acc w =
            repos_loop env (p + 1) (acc @ take 100 ?rest) (w\<lparr>reqs := reqs w @ [repos_request env p]\<rparr>)"
      using False by (subst repos_loop.simps) (simp add: rq)
    also have "\<dots> =
        Some (Inr ((acc @ take 100 ?rest) @ drop (100 * nat (p + 1 - 1)) items),
              (w\<lparr>reqs := reqs w @ [repos_request env p]\<rparr>)
                \<lparr>reqs := reqs (w\<lparr>reqs := reqs w @ [repos_request env p]\<rparr>)
                   @ map (repos_request env)
                       [p + 1 .. p + 1
                          + int ((length (drop (100 * nat (p + 1 - 1)) items) + 99) div 100)]\<rparr>)"
      by (rule ih)
    also have "\<dots> =
        Some (Inr (acc @ ?rest),
              w\<lparr>reqs := reqs w @ map (repos_request env)
                  [p .. p + int ((length ?rest + 99) div 100)]\<rparr>)"
      unfolding nxt cnt pages by (simp del: drop_drop)
    finally show ?thesis .
  qed
qed

text \<open>
  Claim C5, as amended. Against a server that serves a list of \<open>n\<close> items in pages of
  100, \<^verbatim>\<open>fetch_repos_data\<close> ends, returns all the items in order, and has issued the
  requests for the pages 1 to \<open>\<lceil>n / 100\<rceil> + 1\<close>, in this order and nothing else: one
  request per page that holds items and one more for the empty page that ends the
  loop.
\<close>

theorem fetch_repos_paged:
  "serves_pages env items \<longrightarrow>
     fetch_repos_data env w =
       Some (Inr items,
             w\<lparr>reqs := reqs w @ map (repos_request env)
                 [1 .. 1 + int ((length items + 99) div 100)]\<rparr>)"
  using repos_loop_paged[of env items 1 "[]" w] by (simp add: fetch_repos_data_def)

lemma serves_paged_env: "serves_pages (paged_env n) (repo_items n)"
  by (simp add: serves_pages_def paged_env_def paged_net_def repos_request_def repos_params_def)

lemma pages_1_4: "[1..4] = [1, 2, 3, 4::int]"
  by (simp add: upto_rec1)

lemma repo_items_length: "length (repo_items n) = n"
  by (simp add: repo_items_def)

text \<open>The claim as stated fails at its own example: with 250 items four requests are
  issued, for the pages 1 to 4, not three.\<close>

theorem fetch_repos_250_counterexample:
  "fetch_repos_data (paged_env 250) world0 =
     Some (Inr (repo_items 250),
           world0\<lparr>reqs := map (repos_request (paged_env 250)) [1, 2, 3, 4]\<rparr>)
   \<and> length (map (repos_request (paged_env 250)) [1, 2, 3, 4]) = 4"
  using repos_loop_paged[OF serves_paged_env, of 1 250 "[]" world0]
  by (simp add: fetch_repos_data_def repo_items_length world0_def pages_1_4)

text \<open>The theorem at a server with 250 items.\<close>

theorem fetch_repos_paged_witness:
  "fst (the (fetch_repos_data (paged_env 250) world0)) = Inr (repo_items 250)
   \<and> length (repo_items 250) = 250
   \<and> reqs (snd (the (fetch_repos_data (paged_env 250) world0)))
       = map (repos_request (paged_env 250)) [1, 2, 3, 4]"
  using fetch_repos_paged[of "paged_env 250" "repo_items 250" world0, THEN mp, OF serves_paged_env]
  by (simp add: repo_items_length world0_def pages_1_4)

section \<open>Properties of the orchestrators\<close>

lemma only_fetches_refl: "only_fetches w w"
  by (simp add: only_fetches_def)

lemma only_fetches_trans: "only_fetches a b \<Longrightarrow> only_fetches b c \<Longrightarrow> only_fetches a c"
  by (auto simp add: only_fetches_def)

lemma request_logged:
  "snd (make_github_request env url params w)
     = w\<lparr>reqs := reqs w @ [Get url params (github_headers env)]\<rparr>"
  by (simp add: make_github_request_def split: http_result.split)

lemma request_frame: "make_github_request env url params w = (r, w') \<Longrightarrow> only_fetches w w'"
  using request_logged[of env url params w] by (simp add: only_fetches_def)

lemma request_fails:
  "net env (length (reqs w)) (Get url params (github_headers env)) = Failed \<Longrightarrow>
     make_github_request env url params w
       = (Inl ConnectionError, w\<lparr>reqs := reqs w @ [Get url params (github_headers env)]\<rparr>)"
  by (simp add: make_github_request_def)

lemma repos_loop_frame:
  assumes "repos_loop env page acc w = Some y"
  shows "only_fetches w (snd y)"
proof (rule repos_loop.raw_induct[where P = "\<lambda>env page acc w y. only_fetches w (snd y)", OF _ assms])
  fix loop env page acc w y
  assume ih: "\<And>e p a v z. loop e p a v = Some z \<Longrightarrow> only_fetches v (snd z)"
    and unfolded:
      "(case make_github_request env (REPOS_ENDPOINT env) (repos_params page) w of
          (Inl e, w') \<Rightarrow> Some (Inl e, w')
        | (Inr repos, w') \<Rightarrow>
            if \<not> truthy repos then Some (Inr acc, w')
            else (case py_iter repos of
                    Inl e \<Rightarrow> Some (Inl e, w')
                  | Inr items \<Rightarrow> loop env (page + 1) (acc @ items) w')) = Some y"
  obtain r w' where m: "make_github_request env (REPOS_ENDPOINT env) (repos_params page) w = (r, w')"
    by (cases "make_github_request env (REPOS_ENDPOINT env) (repos_params page) w")
  note f = request_frame[OF m]
  show "only_fetches w (snd y)"
  proof (cases r)
    case (Inl e)
    with unfolded m have "y = (Inl e, w')" by simp
    with f show ?thesis by simp
  next
    case (Inr repos)
    show ?thesis
    proof (cases "truthy repos")
      case False
      with unfolded m Inr have "y = (Inr acc, w')" by simp
      with f show ?thesis by simp
    next
      case True
      show ?thesis
      proof (cases "py_iter repos")
        case (Inl e)
        with unfolded m Inr True have "y = (Inl e, w')" by simp
        with f show ?thesis by simp
      next
        case items: (Inr items)
        with unfolded m Inr True have "loop env (page + 1) (acc @ items) w' = Some y" by simp
        from f ih[OF this] show ?thesis by (rule only_fetches_trans)
      qed
    qed
  qed
qed

lemma monitored_loop_frame: "monitored_loop env names result w = (res, w') \<Longrightarrow> only_fetches w w'"
proof (induction names arbitrary: result w)
  case Nil
  then show ?case by (simp add: only_fetches_refl)
next
  case (Cons name names)
  show ?case
  proof (cases "py_strip env name = []")
    case True
    with Cons show ?thesis by simp
  next
    case False
    obtain r w1 where
      m: "make_github_request env (GITHUB_API @ ''/repos/'' @ py_strip env name) [] w = (r, w1)"
      by (cases "make_github_request env (GITHUB_API @ ''/repos/'' @ py_strip env name) [] w")
    note f = request_frame[OF m]
    from Cons.prems False m obtain result' where
      "monitored_loop env names result' w1 = (res, w')"
      by (auto split: sum.splits)
    from f Cons.IH[OF this] show ?thesis by (rule only_fetches_trans)
  qed
qed

lemma fetch_from_api_frame:
  assumes "fetch_from_api env w = Some (r, w')"
  shows "only_fetches w w' \<and> prefix (reqs w @ [user_request env]) (reqs w')"
proof -
  obtain r1 w1 where u: "fetch_user_data env w = (r1, w1)"
    by (cases "fetch_user_data env w")
  have w1: "w1 = w\<lparr>reqs := reqs w @ [user_request env]\<rparr>"
    using u request_logged[of env "USER_ENDPOINT env" "[]" w]
    by (simp add: fetch_user_data_def user_request_def)
  have f1: "only_fetches w w1" using w1 by (simp add: only_fetches_def)
  have "only_fetches w1 w'"
  proof (cases r1)
    case (Inl e)
    with assms u show ?thesis by (simp add: fetch_from_api_def only_fetches_refl)
  next
    case (Inr user_data)
    with assms u obtain r2 w2 where s: "fetch_stars_received env w1 = Some (r2, w2)"
      by (cases "fetch_stars_received env w1") (auto simp add: fetch_from_api_def)
    then obtain y where l: "repos_loop env 1 [] w1 = Some y" and y: "snd y = w2"
      by (auto simp add: fetch_stars_received_def fetch_repos_data_def
          split: option.splits prod.splits sum.splits)
    from repos_loop_frame[OF l] y have f2: "only_fetches w1 w2" by simp
    show ?thesis
    proof (cases r2)
      case (Inl e)
      with assms u Inr s f2 show ?thesis by (simp add: fetch_from_api_def)
    next
      case stars: (Inr stars)
      obtain res w3 where ml: "monitored_loop env (MONITORED_REPOS env) [] w2 = (res, w3)"
        by (cases "monitored_loop env (MONITORED_REPOS env) [] w2")
      note f3 = monitored_loop_frame[OF ml]
      obtain r4 w4 where ev:
        "make_github_request env (RECEIVED_EVENTS_ENDPOINT env) [(''per_page'', JInt 30)] w3 = (r4, w4)"
        by (cases "make_github_request env (RECEIVED_EVENTS_ENDPOINT env) [(''per_page'', JInt 30)] w3")
      note f4 = request_frame[OF ev]
      have "only_fetches w4 w'"
        using assms u Inr s stars ml ev
        by (auto simp add: fetch_from_api_def fetch_monitored_repos_data_def
            fetch_recent_stars_by_following_def assemble_result_def bind_io_def lift_io_def
            read_clock_def only_fetches_def split: sum.splits)
      with f2 f3 f4 show ?thesis by (blast intro: only_fetches_trans)
    qed
  qed
  with f1 have "only_fetches w w'" by (rule only_fetches_trans)
  moreover have "prefix (reqs w @ [user_request env]) (reqs w')"
    using \<open>only_fetches w1 w'\<close> w1 by (simp add: only_fetches_def)
  ultimately show ?thesis by simp
qed

lemma load_cache_frame:
  "load_cache x env w = (r, w0) \<Longrightarrow>
     cache w0 = cache w \<and> reqs w0 = reqs w \<and> stdout w0 = stdout w \<and> ticks w \<le> ticks w0"
  by (auto simp add: load_cache_def split: file_state.splits sum.splits)

lemma github_hit:
  "github_load_cache env w = (Inr c, w0) \<Longrightarrow> truthy c \<Longrightarrow> fetch_github_data env w = Some (Inr c, w0)"
  by (simp add: fetch_github_data_def)

lemma github_miss:
  "github_load_cache env w = (Inr c, w0) \<Longrightarrow> \<not> truthy c \<Longrightarrow>
     fetch_github_data env w =
       (case fetch_from_api env w0 of
          None \<Rightarrow> None
        | Some (Inl e, w1) \<Rightarrow> Some (Inl e, w1)
        | Some (Inr result, w1) \<Rightarrow> Some (Inr result, snd (save_cache result env w1)))"
  by (simp add: fetch_github_data_def bind_io_def lift_io_def save_cache_def Let_def
      split: option.split prod.split sum.split)

lemma first_request_fails:
  "net env (length (reqs w)) (user_request env) = Failed \<Longrightarrow>
     fetch_from_api env w = Some (Inl ConnectionError, w\<lparr>reqs := reqs w @ [user_request env]\<rparr>)"
  by (simp add: fetch_from_api_def fetch_user_data_def make_github_request_def user_request_def)

text \<open>A failure of one of the fetchers is the outcome of the whole fetch.\<close>

lemma api_user_fails:
  assumes "fetch_user_data env w0 = (Inl e, w1)"
  shows "fetch_from_api env w0 = Some (Inl e, w1) \<and> reqs w1 = reqs w0 @ [user_request env]"
proof -
  from assms request_logged[of env "USER_ENDPOINT env" "[]" w0]
  have "w1 = w0\<lparr>reqs := reqs w0 @ [user_request env]\<rparr>"
    by (simp add: fetch_user_data_def user_request_def)
  with assms show ?thesis by (simp add: fetch_from_api_def)
qed

lemma api_stars_fail:
  "fetch_user_data env w0 = (Inr u, w1) \<Longrightarrow> fetch_stars_received env w1 = Some (Inl e, w2)
   \<Longrightarrow> fetch_from_api env w0 = Some (Inl e, w2)"
  by (simp add: fetch_from_api_def)

lemma api_events_fail:
  "fetch_user_data env w0 = (Inr u, w1) \<Longrightarrow> fetch_stars_received env w1 = Some (Inr n, w2)
   \<Longrightarrow> fetch_monitored_repos_data env w2 = (Inr m, w3)
   \<Longrightarrow> fetch_recent_stars_by_following env w3 = (Inl e, w4)
   \<Longrightarrow> fetch_from_api env w0 = Some (Inl e, w4)"
  by (simp add: fetch_from_api_def bind_io_def)

lemma api_assembles:
  "fetch_user_data env w0 = (Inr u, w1) \<Longrightarrow> fetch_stars_received env w1 = Some (Inr n, w2)
   \<Longrightarrow> fetch_monitored_repos_data env w2 = (Inr m, w3)
   \<Longrightarrow> fetch_recent_stars_by_following env w3 = (Inr rs, w4)
   \<Longrightarrow> fetch_from_api env w0 = Some (assemble_result env u n m rs w4)"
  by (simp add: fetch_from_api_def bind_io_def)

lemma page_fails:
  "make_github_request env (REPOS_ENDPOINT env) (repos_params page) w1 = (Inl e, w2)
   \<Longrightarrow> repos_loop env page acc w1 = Some (Inl e, w2)"
  by (subst repos_loop.simps) simp

lemma stars_of_repos:
  "fetch_stars_received env w1 =
     (case repos_loop env 1 [] w1 of
        None \<Rightarrow> None
      | Some (Inl e, w2) \<Rightarrow> Some (Inl e, w2)
      | Some (Inr repos, w2) \<Rightarrow> Some (sum_stars (JInt 0) repos, w2))"
  by (simp add: fetch_stars_received_def fetch_repos_data_def
      split: option.split prod.split sum.split)

lemma events_request_fails:
  "make_github_request env (RECEIVED_EVENTS_ENDPOINT env) [(''per_page'', JInt 30)] w3 = (Inl e, w4)
   \<Longrightarrow> fetch_recent_stars_by_following env w3 = (Inl e, w4)"
  by (simp add: fetch_recent_stars_by_following_def bind_io_def)

lemma github_try_fails:
  "fetch_github_data env w = Some (Inl e, w1) \<Longrightarrow> github_try env w = Some (Inl e, w1)"
  by (simp add: github_try_def)

lemma scholar_try_fails:
  "fetch_scholar_data env w = (Inl e, w1) \<Longrightarrow> scholar_try env w = (Inl e, w1)"
  by (simp add: scholar_try_def bind_io_def)

lemma scholar_hit:
  "scholar_load_cache env w = (Inr c, w0) \<Longrightarrow> truthy c \<Longrightarrow> fetch_scholar_data env w = (Inr c, w0)"
  by (simp add: fetch_scholar_data_def bind_io_def lift_io_def)

lemma scholar_request_fails:
  "scholar_load_cache env w = (Inr c, w0) \<Longrightarrow> \<not> truthy c
   \<Longrightarrow> net env (length (reqs w0)) (scholar_request env) = Failed
   \<Longrightarrow> fetch_scholar_data env w
         = (Inl ConnectionError, w0\<lparr>reqs := reqs w0 @ [scholar_request env]\<rparr>)"
  by (simp add: fetch_scholar_data_def scholar_get_def bind_io_def lift_io_def)

lemma scholar_parse_frame:
  "scholar_parse env d w = (r, w') \<Longrightarrow> reqs w' = reqs w \<and> cache w' = cache w"
  by (auto simp add: scholar_parse_def bind_io_def lift_io_def read_clock_def
      split: sum.splits prod.splits if_splits)

lemma scholar_miss_effects:
  assumes "scholar_load_cache env w = (Inr c, w0)" and "\<not> truthy c"
  shows "reqs (snd (fetch_scholar_data env w)) = reqs w @ [scholar_request env]
         \<and> (case fetch_scholar_data env w of
              (Inl e, w1) \<Rightarrow> cache w1 = cache w
            | (Inr result, w1) \<Rightarrow>
                cache w1 = (if writable env
                            then Holds (JObj [(''timestamp'', JFloat (clock env (ticks w1 - 1))),
                                              (''data'', result)])
                            else cache w))"
proof -
  from load_cache_frame[OF assms(1)[unfolded scholar_load_cache_def]]
  have w0: "cache w0 = cache w" "reqs w0 = reqs w" by simp_all
  let ?w1 = "w0\<lparr>reqs := reqs w0 @ [scholar_request env]\<rparr>"
  show ?thesis
  proof (cases "net env (length (reqs w0)) (scholar_request env)")
    case Failed
    with assms w0 show ?thesis
      by (simp add: fetch_scholar_data_def scholar_get_def bind_io_def lift_io_def)
  next
    case (Response r)
    note eq = scholar_miss[OF assms Response]
    show ?thesis
    proof (cases "body r")
      case None
      with eq w0 show ?thesis by simp
    next
      case (Some d)
      obtain pr w2 where p: "scholar_parse env d ?w1 = (pr, w2)"
        by (cases "scholar_parse env d ?w1")
      from scholar_parse_frame[OF p] w0
      have w2: "reqs w2 = reqs w @ [scholar_request env]" "cache w2 = cache w" by simp_all
      from eq Some p w2 show ?thesis
        by (cases pr) (simp_all add: bind_io_def lift_io_def save_cache_def Let_def)
    qed
  qed
qed

text \<open>Selecting one part of a long conjunction.\<close>

lemmas part2 = conjunct2[THEN conjunct1]
lemmas part3 = conjunct2[THEN part2]
lemmas part4 = conjunct2[THEN part3]
lemmas part5 = conjunct2[THEN part4]
lemmas part6 = conjunct2[THEN part5]
lemmas part7 = conjunct2[THEN part6]
lemmas part8 = conjunct2[THEN part7]
lemmas part9 = conjunct2[THEN part8]
lemmas part10 = conjunct2[THEN part9]
lemmas part11 = conjunct2[THEN part10]
lemmas part12 = conjunct2[THEN part11]
lemmas part13 = conjunct2[THEN part12]
lemmas part14 = conjunct2[THEN part13]
lemmas part15 = conjunct2[THEN part14]
lemmas part16 = conjunct2[THEN part15]
lemmas part17 = conjunct2[THEN part16]
lemmas part18 = conjunct2[THEN part17]
lemmas last19 = conjunct2[THEN conjunct2, THEN conjunct2, THEN conjunct2, THEN conjunct2,
  THEN conjunct2, THEN conjunct2, THEN conjunct2, THEN conjunct2, THEN conjunct2,
  THEN conjunct2, THEN conjunct2, THEN conjunct2, THEN conjunct2, THEN conjunct2,
  THEN conjunct2, THEN conjunct2, THEN conjunct2]

text \<open>
  Claim C2, as amended. Both orchestrators consult the cache first. When
  \<^verbatim>\<open>load_cache\<close> returns a truthy payload they return it, issue no request and leave
  the cache file alone. Otherwise (nothing loaded, or a payload that is falsy) they
  run the fetcher once.

  The code-hosting plugin returns what \<open>fetch_from_api\<close> returns, written through
  \<^verbatim>\<open>save_cache\<close> on success and with the cache file untouched on failure. A failure of
  the user request (the only request issued then), of \<^verbatim>\<open>fetch_stars_received\<close> or of
  \<^verbatim>\<open>fetch_recent_stars_by_following\<close> is the failure of the fetch; when all of them
  succeed the result is assembled from their values. A failure of the fetch leaves
  the \<^verbatim>\<open>try\<close> block of the entry point as that exception. No request is repeated: a
  failed request for a page of the repository list ends the loop with that failure,
  which is the failure of \<^verbatim>\<open>fetch_stars_received\<close>, as is an exception while the
  stars are summed; a failed request for the events is the failure of
  \<^verbatim>\<open>fetch_recent_stars_by_following\<close>.

  The citation plugin issues exactly one request. When this request fails, when the
  body of the answer is not JSON and when reading the body raises, the orchestrator
  fails with that exception, the cache file is untouched and the exception leaves the
  \<^verbatim>\<open>try\<close> block of the entry point; otherwise the record is written through and
  returned.
\<close>

theorem orchestrator_read_through:
  "(github_load_cache env w = (Inr c, w0) \<and> truthy c
      \<longrightarrow> fetch_github_data env w = Some (Inr c, w0) \<and> reqs w0 = reqs w \<and> cache w0 = cache w)
   \<and> (github_load_cache env w = (Inr c, w0) \<and> \<not> truthy c
      \<longrightarrow> fetch_github_data env w =
            (case fetch_from_api env w0 of
               None \<Rightarrow> None
             | Some (Inl e, w1) \<Rightarrow> Some (Inl e, w1)
             | Some (Inr result, w1) \<Rightarrow> Some (Inr result, snd (save_cache result env w1))))
   \<and> (fetch_from_api env w0 = Some (Inl e, w1) \<longrightarrow> cache w1 = cache w0)
   \<and> (net env (length (reqs w0)) (user_request env) = Failed
      \<longrightarrow> fetch_from_api env w0
            = Some (Inl ConnectionError, w0\<lparr>reqs := reqs w0 @ [user_request env]\<rparr>))
   \<and> (fetch_user_data env w0 = (Inl e, w1)
      \<longrightarrow> fetch_from_api env w0 = Some (Inl e, w1) \<and> reqs w1 = reqs w0 @ [user_request env])
   \<and> (fetch_user_data env w0 = (Inr u, w1) \<and> fetch_stars_received env w1 = Some (Inl e, w2)
      \<longrightarrow> fetch_from_api env w0 = Some (Inl e, w2))
   \<and> (fetch_user_data env w0 = (Inr u, w1) \<and> fetch_stars_received env w1 = Some (Inr n, w2)
      \<and> fetch_monitored_repos_data env w2 = (Inr m, w3)
      \<and> fetch_recent_stars_by_following env w3 = (Inl e, w4)
      \<longrightarrow> fetch_from_api env w0 = Some (Inl e, w4))
   \<and> (fetch_user_data env w0 = (Inr u, w1) \<and> fetch_stars_received env w1 = Some (Inr n, w2)
      \<and> fetch_monitored_repos_data env w2 = (Inr m, w3)
      \<and> fetch_recent_stars_by_following env w3 = (Inr rs, w4)
      \<longrightarrow> fetch_from_api env w0 = Some (assemble_result env u n m rs w4))
   \<and> (fetch_github_data env w = Some (Inl e, w1) \<longrightarrow> github_try env w = Some (Inl e, w1))
   \<and> (make_github_request env (REPOS_ENDPOINT env) (repos_params page) w1 = (Inl e, w2)
      \<longrightarrow> repos_loop env page acc w1 = Some (Inl e, w2))
   \<and> fetch_stars_received env w1 =
       (case repos_loop env 1 [] w1 of
          None \<Rightarrow> None
        | Some (Inl e, w2) \<Rightarrow> Some (Inl e, w2)
        | Some (Inr repos, w2) \<Rightarrow> Some (sum_stars (JInt 0) repos, w2))
   \<and> (make_github_request env (RECEIVED_EVENTS_ENDPOINT env) [(''per_page'', JInt 30)] w3
        = (Inl e, w4)
      \<longrightarrow> fetch_recent_stars_by_following env w3 = (Inl e, w4))
   \<and> (scholar_load_cache env w = (Inr c, w0) \<and> truthy c
      \<longrightarrow> fetch_scholar_data env w = (Inr c, w0) \<and> reqs w0 = reqs w \<and> cache w0 = cache w)
   \<and> (scholar_load_cache env w = (Inr c, w0) \<and> \<not> truthy c
      \<longrightarrow> reqs (snd (fetch_scholar_data env w)) = reqs w @ [scholar_request env]
          \<and> (case fetch_scholar_data env w of
               (Inl e, w1) \<Rightarrow> cache w1 = cache w
             | (Inr result, w1) \<Rightarrow>
                 cache w1 = (if writable env
                             then Holds (JObj [(''timestamp'', JFloat (clock env (ticks w1 - 1))),
                                               (''data'', result)])
                             else cache w)))
   \<and> (scholar_load_cache env w = (Inr c, w0) \<and> \<not> truthy c
      \<and> net env (length (reqs w0)) (scholar_request env) = Failed
      \<longrightarrow> fetch_scholar_data env w
            = (Inl ConnectionError, w0\<lparr>reqs := reqs w0 @ [scholar_request env]\<rparr>))
   \<and> (scholar_load_cache env w = (Inr c, w0) \<and> \<not> truthy c
      \<and> net env (length (reqs w0)) (scholar_request env) = Response r \<and> body r = None
      \<longrightarrow> fetch_scholar_data env w
            = (Inl JSONDecodeError, w0\<lparr>reqs := reqs w0 @ [scholar_request env]\<rparr>))
   \<and> (scholar_load_cache env w = (Inr c, w0) \<and> \<not> truthy c
      \<and> net env (length (reqs w0)) (scholar_request env) = Response r \<and> body r = Some d
      \<and> scholar_parse env d (w0\<lparr>reqs := reqs w0 @ [scholar_request env]\<rparr>) = (Inl e, w1)
      \<longrightarrow> fetch_scholar_data env w = (Inl e, w1))
   \<and> (scholar_load_cache env w = (Inr c, w0) \<and> \<not> truthy c
      \<and> net env (length (reqs w0)) (scholar_request env) = Response r \<and> body r = Some d
      \<and> scholar_parse env d (w0\<lparr>reqs := reqs w0 @ [scholar_request env]\<rparr>) = (Inr result, w1)
      \<longrightarrow> fetch_scholar_data env w = (Inr result, snd (save_cache result env w1)))
   \<and> (fetch_scholar_data env w = (Inl e, w1) \<longrightarrow> scholar_try env w = (Inl e, w1))"
proof (intro conjI impI)
  assume a: "github_load_cache env w = (Inr c, w0) \<and> truthy c"
  then show "fetch_github_data env w = Some (Inr c, w0)" by (simp add: github_hit)
  from a load_cache_frame[of GITHUB_CACHE_EXPIRATION env w "Inr c" w0]
  show "reqs w0 = reqs w" "cache w0 = cache w" by (simp_all add: github_load_cache_def)
next
  assume "github_load_cache env w = (Inr c, w0) \<and> \<not> truthy c"
  then show "fetch_github_data env w =
            (case fetch_from_api env w0 of
               None \<Rightarrow> None
             | Some (Inl e, w1) \<Rightarrow> Some (Inl e, w1)
             | Some (Inr result, w1) \<Rightarrow> Some (Inr result, snd (save_cache result env w1)))"
    by (simp add: github_miss)
next
  assume "fetch_from_api env w0 = Some (Inl e, w1)"
  from fetch_from_api_frame[OF this] show "cache w1 = cache w0" by (simp add: only_fetches_def)
next
  assume "net env (length (reqs w0)) (user_request env) = Failed"
  then show "fetch_from_api env w0
            = Some (Inl ConnectionError, w0\<lparr>reqs := reqs w0 @ [user_request env]\<rparr>)"
    by (rule first_request_fails)
next
  assume a: "fetch_user_data env w0 = (Inl e, w1)"
  from api_user_fails[OF a]
  show "fetch_from_api env w0 = Some (Inl e, w1)" "reqs w1 = reqs w0 @ [user_request env]"
    by simp_all
next
  assume "fetch_user_data env w0 = (Inr u, w1) \<and> fetch_stars_received env w1 = Some (Inl e, w2)"
  then show "fetch_from_api env w0 = Some (Inl e, w2)" by (simp add: api_stars_fail)
next
  assume "fetch_user_data env w0 = (Inr u, w1) \<and> fetch_stars_received env w1 = Some (Inr n, w2)
      \<and> fetch_monitored_repos_data env w2 = (Inr m, w3)
      \<and> fetch_recent_stars_by_following env w3 = (Inl e, w4)"
  then show "fetch_from_api env w0 = Some (Inl e, w4)" by (simp add: api_events_fail)
next
  assume "fetch_user_data env w0 = (Inr u, w1) \<and> fetch_stars_received env w1 = Some (Inr n, w2)
      \<and> fetch_monitored_repos_data env w2 = (Inr m, w3)
      \<and> fetch_recent_stars_by_following env w3 = (Inr rs, w4)"
  then show "fetch_from_api env w0 = Some (assemble_result env u n m rs w4)"
    by (simp add: api_assembles)
next
  assume "fetch_github_data env w = Some (Inl e, w1)"
  then show "github_try env w = Some (Inl e, w1)" by (rule github_try_fails)
next
  assume "make_github_request env (REPOS_ENDPOINT env) (repos_params page) w1 = (Inl e, w2)"
  then show "repos_loop env page acc w1 = Some (Inl e, w2)" by (rule page_fails)
next
  show "fetch_stars_received env w1 =
       (case repos_loop env 1 [] w1 of
          None \<Rightarrow> None
        | Some (Inl e, w2) \<Rightarrow> Some (Inl e, w2)
        | Some (Inr repos, w2) \<Rightarrow> Some (sum_stars (JInt 0) repos, w2))"
    by (rule stars_of_repos)
next
  assume "make_github_request env (RECEIVED_EVENTS_ENDPOINT env) [(''per_page'', JInt 30)] w3
        = (Inl e, w4)"
  then show "fetch_recent_stars_by_following env w3 = (Inl e, w4)"
    by (rule events_request_fails)
next
  assume a: "scholar_load_cache env w = (Inr c, w0) \<and> truthy c"
  then show "fetch_scholar_data env w = (Inr c, w0)" by (simp add: scholar_hit)
  from a load_cache_frame[of SCHOLAR_CACHE_EXPIRATION env w "Inr c" w0]
  show "reqs w0 = reqs w" "cache w0 = cache w" by (simp_all add: scholar_load_cache_def)
next
  assume a: "scholar_load_cache env w = (Inr c, w0) \<and> \<not> truthy c"
  then have l: "scholar_load_cache env w = (Inr c, w0)" and f: "\<not> truthy c" by simp_all
  from scholar_miss_effects[OF l f]
  show "reqs (snd (fetch_scholar_data env w)) = reqs w @ [scholar_request env]"
    and "case fetch_scholar_data env w of
               (Inl e, w1) \<Rightarrow> cache w1 = cache w
             | (Inr result, w1) \<Rightarrow>
                 cache w1 = (if writable env
                             then Holds (JObj [(''timestamp'', JFloat (clock env (ticks w1 - 1))),
                                               (''data'', result)])
                             else cache w)"
    by simp_all
next
  assume "scholar_load_cache env w = (Inr c, w0) \<and> \<not> truthy c
      \<and> net env (length (reqs w0)) (scholar_request env) = Failed"
  then show "fetch_scholar_data env w
            = (Inl ConnectionError, w0\<lparr>reqs := reqs w0 @ [scholar_request env]\<rparr>)"
    by (simp add: scholar_request_fails)
next
  assume a: "scholar_load_cache env w = (Inr c, w0) \<and> \<not> truthy c
      \<and> net env (length (reqs w0)) (scholar_request env) = Response r \<and> body r = None"
  then have "scholar_load_cache env w = (Inr c, w0)" "\<not> truthy c"
    "net env (length (reqs w0)) (scholar_request env) = Response r" by simp_all
  from scholar_miss[OF this] a
  show "fetch_scholar_data env w
            = (Inl JSONDecodeError, w0\<lparr>reqs := reqs w0 @ [scholar_request env]\<rparr>)"
    by simp
next
  assume a: "scholar_load_cache env w = (Inr c, w0) \<and> \<not> truthy c
      \<and> net env (length (reqs w0)) (scholar_request env) = Response r \<and> body r = Some d
      \<and> scholar_parse env d (w0\<lparr>reqs := reqs w0 @ [scholar_request env]\<rparr>) = (Inl e, w1)"
  then have "scholar_load_cache env w = (Inr c, w0)" "\<not> truthy c"
    "net env (length (reqs w0)) (scholar_request env) = Response r" by simp_all
  from scholar_miss[OF this] a
  show "fetch_scholar_data env w = (Inl e, w1)"
    by (simp add: bind_io_def)
next
  assume a: "scholar_load_cache env w = (Inr c, w0) \<and> \<not> truthy c
      \<and> net env (length (reqs w0)) (scholar_request env) = Response r \<and> body r = Some d
      \<and> scholar_parse env d (w0\<lparr>reqs := reqs w0 @ [scholar_request env]\<rparr>) = (Inr result, w1)"
  then have "scholar_load_cache env w = (Inr c, w0)" "\<not> truthy c"
    "net env (length (reqs w0)) (scholar_request env) = Response r" by simp_all
  from scholar_miss[OF this] a
  show "fetch_scholar_data env w = (Inr result, snd (save_cache result env w1))"
    by (simp add: bind_io_def lift_io_def save_cache_def Let_def)
next
  assume "fetch_scholar_data env w = (Inl e, w1)"
  then show "scholar_try env w = (Inl e, w1)" by (rule scholar_try_fails)
qed


subsection \<open>Runs on the sample machines\<close>

lemma env0_reads:
  "clock env0 k = 1700000000 + real k" "net env0 k rq = Failed" "writable env0"
  by (simp_all add: env0_def)

lemma load_old:
  "cache w = Holds (entry 1699990000 d) \<Longrightarrow>
     github_load_cache env0 w = (Inr JNull, w\<lparr>ticks := Suc (ticks w)\<rparr>)"
  by (simp add: github_load_cache_def load_cache_def load_cache_try_def env0_reads entry_def
      GITHUB_CACHE_EXPIRATION_def)

lemma load_recent:
  "cache w = Holds (entry 1699999990 d) \<Longrightarrow> ticks w \<le> 3 \<Longrightarrow>
     github_load_cache env0 w = (Inr d, w\<lparr>ticks := Suc (ticks w)\<rparr>)
     \<and> scholar_load_cache env0 w = (Inr d, w\<lparr>ticks := Suc (ticks w)\<rparr>)"
  by (simp add: github_load_cache_def scholar_load_cache_def load_cache_def load_cache_try_def
      env0_reads entry_def GITHUB_CACHE_EXPIRATION_def SCHOLAR_CACHE_EXPIRATION_def)

lemma load_stale: "github_load_cache env0 stale_world = (Inr JNull, stale_world\<lparr>ticks := 1\<rparr>)"
  by (simp add: github_load_cache_def load_cache_def load_cache_try_def env0_reads stale_world_def
      world0_def entry_def GITHUB_CACHE_EXPIRATION_def)

lemma load_fresh:
  "github_load_cache env0 fresh_world = (Inr github_record, fresh_world\<lparr>ticks := 1\<rparr>)"
  by (simp add: github_load_cache_def load_cache_def load_cache_try_def env0_reads fresh_world_def
      world0_def entry_def GITHUB_CACHE_EXPIRATION_def)

lemma load_empty_payload:
  "github_load_cache env0 empty_payload_world = (Inr (JObj []), empty_payload_world\<lparr>ticks := 1\<rparr>)"
  by (simp add: github_load_cache_def load_cache_def load_cache_try_def env0_reads
      empty_payload_world_def world0_def entry_def GITHUB_CACHE_EXPIRATION_def)

lemma load_scholar_fresh:
  "scholar_load_cache env0 scholar_fresh_world
     = (Inr scholar_record, scholar_fresh_world\<lparr>ticks := 1\<rparr>)"
  by (simp add: scholar_load_cache_def load_cache_def load_cache_try_def env0_reads
      scholar_fresh_world_def world0_def entry_def SCHOLAR_CACHE_EXPIRATION_def)

lemma load_absent:
  "cache w = Absent \<Longrightarrow> scholar_load_cache env w = (Inr JNull, w)"
  "cache w = Absent \<Longrightarrow> github_load_cache env w = (Inr JNull, w)"
  by (simp_all add: scholar_load_cache_def github_load_cache_def load_cache_def)

lemma records_truthy: "truthy github_record" "truthy scholar_record"
  by (simp_all add: github_record_def scholar_record_def)

lemma api_down:
  "fetch_from_api env0 w = Some (Inl ConnectionError, w\<lparr>reqs := reqs w @ [user_request env0]\<rparr>)"
  by (rule first_request_fails) (simp add: env0_reads)

lemma fetch_down_empty_payload:
  "fetch_github_data env0 empty_payload_world =
     Some (Inl ConnectionError, empty_payload_world\<lparr>ticks := 1, reqs := [user_request env0]\<rparr>)"
  by (subst github_miss[OF load_empty_payload])
     (simp_all add: api_down empty_payload_world_def world0_def)

lemma fetch_down_stale:
  "fetch_github_data env0 stale_world =
     Some (Inl ConnectionError, stale_world\<lparr>ticks := 1, reqs := [user_request env0]\<rparr>)"
  by (subst github_miss[OF load_stale]) (simp_all add: api_down stale_world_def world0_def)

text \<open>The single steps of a fetch, by the answer of the server.\<close>

lemma user_answered:
  "net env (length (reqs w)) (user_request env) = Response user_response \<Longrightarrow>
     fetch_user_data env w = (Inr user_body, w\<lparr>reqs := reqs w @ [user_request env]\<rparr>)"
  by (simp add: fetch_user_data_def make_github_request_def user_request_def check_response_def
      rate_limit_check_def raise_for_status_def response_json_def user_response_def)

lemma first_page_fails:
  "net env (length (reqs w)) (repos_request env 1) = Failed \<Longrightarrow>
     fetch_stars_received env w
       = Some (Inl ConnectionError, w\<lparr>reqs := reqs w @ [repos_request env 1]\<rparr>)"
  unfolding fetch_stars_received_def fetch_repos_data_def
  by (subst repos_loop.simps) (simp add: make_github_request_def repos_request_def)

lemma first_page_empty:
  "net env (length (reqs w)) (repos_request env 1) = Response empty_list_response \<Longrightarrow>
     fetch_stars_received env w
       = Some (Inr (JInt 0), w\<lparr>reqs := reqs w @ [repos_request env 1]\<rparr>)"
  unfolding fetch_stars_received_def fetch_repos_data_def
  by (subst repos_loop.simps)
     (simp add: make_github_request_def repos_request_def check_response_def
        rate_limit_check_def raise_for_status_def response_json_def empty_list_response_def)

lemma monitored_none:
  "MONITORED_REPOS env = [] \<Longrightarrow> fetch_monitored_repos_data env w = (Inr (JArr []), w)"
  by (simp add: fetch_monitored_repos_data_def)

lemma events_fail:
  "net env (length (reqs w)) (events_request env) = Failed \<Longrightarrow>
     fetch_recent_stars_by_following env w
       = (Inl ConnectionError, w\<lparr>reqs := reqs w @ [events_request env]\<rparr>)"
  by (simp add: fetch_recent_stars_by_following_def make_github_request_def events_request_def
      bind_io_def)

lemma events_empty:
  "net env (length (reqs w)) (events_request env) = Response empty_list_response \<Longrightarrow>
     fetch_recent_stars_by_following env w
       = (Inr (JArr []), w\<lparr>reqs := reqs w @ [events_request env]\<rparr>)"
  by (simp add: fetch_recent_stars_by_following_def make_github_request_def events_request_def
      bind_io_def lift_io_def bind_res_def check_response_def rate_limit_check_def
      raise_for_status_def response_json_def empty_list_response_def)

text \<open>What the sample servers answer.\<close>

lemma sample_requests:
  "user_request (env0\<lparr>net := f\<rparr>) = user_request env0"
  "repos_request (env0\<lparr>net := f\<rparr>) p = repos_request env0 p"
  "events_request (env0\<lparr>net := f\<rparr>) = events_request env0"
  "scholar_request (env0\<lparr>net := f\<rparr>) = scholar_request env0"
  "user_request env0 \<noteq> repos_request env0 p"
  "user_request env0 \<noteq> events_request env0"
  "events_request env0 \<noteq> repos_request env0 p"
  by (simp_all add: user_request_def repos_request_def events_request_def scholar_request_def
      USER_ENDPOINT_def REPOS_ENDPOINT_def RECEIVED_EVENTS_ENDPOINT_def github_headers_def
      repos_params_def)

lemma repos_down_answers:
  "net repos_down_env k (user_request repos_down_env) = Response user_response"
  "net repos_down_env k (repos_request repos_down_env 1) = Failed"
  using sample_requests(5)[of 1]
  by (simp_all add: repos_down_env_def sample_requests(1,2))

lemma events_down_answers:
  "net events_down_env k (user_request events_down_env) = Response user_response"
  "net events_down_env k (repos_request events_down_env 1) = Response empty_list_response"
  "net events_down_env k (events_request events_down_env) = Failed"
  using sample_requests(5)[of 1] sample_requests(6) sample_requests(7)[of 1]
  by (simp_all add: events_down_env_def sample_requests(1,2,3))

lemma quiet_answers:
  "net quiet_env k (user_request quiet_env) = Response user_response"
  "net quiet_env k (repos_request quiet_env p) = Response empty_list_response"
  "net quiet_env k (events_request quiet_env) = Response empty_list_response"
  using sample_requests(5)[of p] sample_requests(6)
  by (simp_all add: quiet_env_def sample_requests(1,2,3))

lemma quiet_serves: "serves_pages quiet_env []"
  by (simp add: serves_pages_def quiet_answers empty_list_response_def)

lemma quiet_assembled:
  "assemble_result quiet_env user_body (JInt 0) (JArr []) (JArr []) w
     = (Inr quiet_record, w\<lparr>ticks := Suc (ticks w)\<rparr>)"
  by (simp add: assemble_result_def user_fields_def bind_io_def lift_io_def bind_res_def
      read_clock_def user_body_def quiet_record_def quiet_env_def env0_def)

lemma error_page_reads:
  "clock error_page_env k = 1700000000 + real k" "writable error_page_env"
  "scholar_request error_page_env = scholar_request env0"
  by (simp_all add: error_page_env_def env0_reads sample_requests(4))

lemma bad_table_parse:
  "scholar_parse bad_table_env bad_table_body w
     = (Inl (KeyError (JStr ''all'')), w\<lparr>ticks := Suc (ticks w)\<rparr>)"
  by (simp add: scholar_parse_def author_name_def citation_stats_def table_stat_def io_defs
      bad_table_body_def)

lemma empty_body_parse:
  "scholar_parse error_page_env (JObj []) w
     = (Inr (default_record ''2023-11-14 22:13''), w\<lparr>ticks := Suc (Suc (ticks w))\<rparr>)"
  by (simp add: scholar_parse_def author_name_def citation_stats_def current_year_citations_def
      io_defs default_record_def error_page_env_def env0_def)

text \<open>The claim as stated fails for a fresh entry whose payload is falsy:
  \<^verbatim>\<open>load_cache\<close> returns the empty dictionary the file holds, and the orchestrator
  does not return it but goes to the network.\<close>

theorem fresh_falsy_payload_counterexample:
  "github_load_cache env0 empty_payload_world = (Inr (JObj []), empty_payload_world\<lparr>ticks := 1\<rparr>)
   \<and> fetch_github_data env0 empty_payload_world =
       Some (Inl ConnectionError, empty_payload_world\<lparr>ticks := 1, reqs := [user_request env0]\<rparr>)"
  using load_empty_payload fetch_down_empty_payload by simp

text \<open>The theorem for the code-hosting plugin: at a fresh record (a hit) and at a
  stale one (a miss) with the network down, then without a cache file at the servers
  that fail the user request, the repository list and the events, and at the server
  that answers everything. For the citation plugin: at a fresh record, and without a
  cache file at a network that is down, at an answer that is not JSON, at a body that
  cannot be read and at a body that can.\<close>

theorem orchestrator_read_through_witness:
  "fetch_github_data env0 fresh_world = Some (Inr github_record, fresh_world\<lparr>ticks := 1\<rparr>)
   \<and> reqs (fresh_world\<lparr>ticks := 1\<rparr>) = reqs fresh_world
   \<and> fetch_github_data env0 stale_world =
       Some (Inl ConnectionError,
             stale_world\<lparr>ticks := 1\<rparr>\<lparr>reqs := reqs (stale_world\<lparr>ticks := 1\<rparr>) @ [user_request env0]\<rparr>)
   \<and> cache (stale_world\<lparr>ticks := 1\<rparr>\<lparr>reqs := reqs (stale_world\<lparr>ticks := 1\<rparr>) @ [user_request env0]\<rparr>)
       = cache (stale_world\<lparr>ticks := 1\<rparr>)
   \<and> github_try env0 stale_world =
       Some (Inl ConnectionError,
             stale_world\<lparr>ticks := 1\<rparr>\<lparr>reqs := reqs (stale_world\<lparr>ticks := 1\<rparr>) @ [user_request env0]\<rparr>)
   \<and> fetch_from_api env0 world0 = Some (Inl ConnectionError, world0\<lparr>reqs := [user_request env0]\<rparr>)
   \<and> fetch_from_api repos_down_env world0 =
       Some (Inl ConnectionError, world0\<lparr>reqs := [user_request env0, repos_request env0 1]\<rparr>)
   \<and> fetch_from_api events_down_env world0 =
       Some (Inl ConnectionError,
             world0\<lparr>reqs := [user_request env0, repos_request env0 1, events_request env0]\<rparr>)
   \<and> repos_loop repos_down_env 1 [] (world0\<lparr>reqs := [user_request env0]\<rparr>) =
       Some (Inl ConnectionError, world0\<lparr>reqs := [user_request env0, repos_request env0 1]\<rparr>)
   \<and> fetch_recent_stars_by_following events_down_env
         (world0\<lparr>reqs := [user_request env0, repos_request env0 1]\<rparr>) =
       (Inl ConnectionError,
        world0\<lparr>reqs := [user_request env0, repos_request env0 1, events_request env0]\<rparr>)
   \<and> fetch_from_api quiet_env world0 =
       Some (Inr quiet_record,
             world0\<lparr>reqs := [user_request env0, repos_request env0 1, events_request env0],
                    ticks := 1\<rparr>)
   \<and> fetch_scholar_data env0 scholar_fresh_world
       = (Inr scholar_record, scholar_fresh_world\<lparr>ticks := 1\<rparr>)
   \<and> reqs (snd (fetch_scholar_data env0 world0)) = reqs world0 @ [scholar_request env0]
   \<and> fetch_scholar_data env0 world0
       = (Inl ConnectionError, world0\<lparr>reqs := [scholar_request env0]\<rparr>)
   \<and> scholar_try env0 world0 = (Inl ConnectionError, world0\<lparr>reqs := [scholar_request env0]\<rparr>)
   \<and> fetch_scholar_data html_env world0
       = (Inl JSONDecodeError, world0\<lparr>reqs := [scholar_request env0]\<rparr>)
   \<and> fetch_scholar_data bad_table_env world0
       = (Inl (KeyError (JStr ''all'')), world0\<lparr>reqs := [scholar_request env0], ticks := 1\<rparr>)
   \<and> fetch_scholar_data error_page_env world0
       = (Inr (default_record ''2023-11-14 22:13''),
          world0\<lparr>reqs := [scholar_request env0], ticks := 3,
                 cache := Holds (entry 1700000002 (default_record ''2023-11-14 22:13''))\<rparr>)"
proof -
  note main = orchestrator_read_through
  have h1: "github_load_cache env0 fresh_world = (Inr github_record, fresh_world\<lparr>ticks := 1\<rparr>)
            \<and> truthy github_record"
    using load_fresh records_truthy by simp
  have h2: "github_load_cache env0 stale_world = (Inr JNull, stale_world\<lparr>ticks := 1\<rparr>)
            \<and> \<not> truthy JNull"
    using load_stale by simp
  have h3: "net env0 (length (reqs (stale_world\<lparr>ticks := 1\<rparr>))) (user_request env0) = Failed"
    by (simp add: env0_reads)
  note hit = main[where env = env0 and w = fresh_world and c = github_record
      and ?w0.0 = "fresh_world\<lparr>ticks := 1\<rparr>", THEN conjunct1, THEN mp, OF h1]
  note miss = main[where env = env0 and w = stale_world and c = JNull
      and ?w0.0 = "stale_world\<lparr>ticks := 1\<rparr>", THEN part2, THEN mp, OF h2]
  note down = main[where env = env0 and ?w0.0 = "stale_world\<lparr>ticks := 1\<rparr>",
      THEN part4, THEN mp, OF h3]
  note kept = main[where env = env0 and ?w0.0 = "stale_world\<lparr>ticks := 1\<rparr>"
      and e = ConnectionError
      and ?w1.0 = "stale_world\<lparr>ticks := 1\<rparr>\<lparr>reqs := reqs (stale_world\<lparr>ticks := 1\<rparr>) @ [user_request env0]\<rparr>",
      THEN part3, THEN mp, OF down]
  have c2: "fetch_github_data env0 stale_world =
       Some (Inl ConnectionError,
             stale_world\<lparr>ticks := 1\<rparr>\<lparr>reqs := reqs (stale_world\<lparr>ticks := 1\<rparr>) @ [user_request env0]\<rparr>)"
    unfolding miss down by simp
  note tried = main[where env = env0 and w = stale_world and e = ConnectionError
      and ?w1.0 = "stale_world\<lparr>ticks := 1\<rparr>\<lparr>reqs := reqs (stale_world\<lparr>ticks := 1\<rparr>) @ [user_request env0]\<rparr>",
      THEN part9, THEN mp, OF c2]
  have h5: "fetch_user_data env0 world0
              = (Inl ConnectionError, world0\<lparr>reqs := reqs world0 @ [user_request env0]\<rparr>)"
    by (simp add: fetch_user_data_def make_github_request_def user_request_def env0_reads)
  note t5 = main[where env = env0 and ?w0.0 = world0 and e = ConnectionError
      and ?w1.0 = "world0\<lparr>reqs := reqs world0 @ [user_request env0]\<rparr>",
      THEN part5, THEN mp, OF h5, THEN conjunct1]
  have r5: "fetch_from_api env0 world0
              = Some (Inl ConnectionError, world0\<lparr>reqs := [user_request env0]\<rparr>)"
    using t5 by (simp add: world0_def)
  let ?a1 = "world0\<lparr>reqs := reqs world0 @ [user_request repos_down_env]\<rparr>"
  let ?a2 = "?a1\<lparr>reqs := reqs ?a1 @ [repos_request repos_down_env 1]\<rparr>"
  have h6: "fetch_user_data repos_down_env world0 = (Inr user_body, ?a1)
            \<and> fetch_stars_received repos_down_env ?a1 = Some (Inl ConnectionError, ?a2)"
    using user_answered[OF repos_down_answers(1), of world0]
      first_page_fails[OF repos_down_answers(2), of ?a1]
    by simp
  note t6 = main[where env = repos_down_env and ?w0.0 = world0 and u = user_body
      and ?w1.0 = ?a1 and e = ConnectionError and ?w2.0 = ?a2, THEN part6, THEN mp, OF h6]
  have r6: "fetch_from_api repos_down_env world0 =
       Some (Inl ConnectionError, world0\<lparr>reqs := [user_request env0, repos_request env0 1]\<rparr>)"
    using t6 by (simp add: world0_def repos_down_env_def sample_requests(1,2))
  have h10: "make_github_request repos_down_env (REPOS_ENDPOINT repos_down_env) (repos_params 1) ?a1
               = (Inl ConnectionError, ?a2)"
    using request_fails[of repos_down_env ?a1 "REPOS_ENDPOINT repos_down_env" "repos_params 1"]
      repos_down_answers(2)[of "length (reqs ?a1)"]
    by (simp add: repos_request_def)
  note t10 = main[where env = repos_down_env and page = 1 and ?w1.0 = ?a1 and e = ConnectionError
      and ?w2.0 = ?a2 and acc = "[]", THEN part10, THEN mp, OF h10]
  have r10: "repos_loop repos_down_env 1 [] (world0\<lparr>reqs := [user_request env0]\<rparr>) =
       Some (Inl ConnectionError, world0\<lparr>reqs := [user_request env0, repos_request env0 1]\<rparr>)"
    using t10 by (simp add: world0_def repos_down_env_def sample_requests(1,2))
  let ?b1 = "world0\<lparr>reqs := reqs world0 @ [user_request events_down_env]\<rparr>"
  let ?b2 = "?b1\<lparr>reqs := reqs ?b1 @ [repos_request events_down_env 1]\<rparr>"
  let ?b4 = "?b2\<lparr>reqs := reqs ?b2 @ [events_request events_down_env]\<rparr>"
  have h7: "fetch_user_data events_down_env world0 = (Inr user_body, ?b1)
            \<and> fetch_stars_received events_down_env ?b1 = Some (Inr (JInt 0), ?b2)
            \<and> fetch_monitored_repos_data events_down_env ?b2 = (Inr (JArr []), ?b2)
            \<and> fetch_recent_stars_by_following events_down_env ?b2 = (Inl ConnectionError, ?b4)"
    using user_answered[OF events_down_answers(1), of world0]
      first_page_empty[OF events_down_answers(2), of ?b1]
      monitored_none[of events_down_env ?b2]
      events_fail[OF events_down_answers(3), of ?b2]
    by (simp add: events_down_env_def env0_def)
  note t7 = main[where env = events_down_env and ?w0.0 = world0 and u = user_body
      and ?w1.0 = ?b1 and n = "JInt 0" and ?w2.0 = ?b2 and m = "JArr []" and ?w3.0 = ?b2
      and e = ConnectionError and ?w4.0 = ?b4, THEN part7, THEN mp, OF h7]
  have r7: "fetch_from_api events_down_env world0 =
       Some (Inl ConnectionError,
             world0\<lparr>reqs := [user_request env0, repos_request env0 1, events_request env0]\<rparr>)"
    using t7 by (simp add: world0_def events_down_env_def sample_requests(1,2,3))
  have h12: "make_github_request events_down_env (RECEIVED_EVENTS_ENDPOINT events_down_env)
                [(''per_page'', JInt 30)] ?b2
               = (Inl ConnectionError, ?b4)"
    using request_fails[of events_down_env ?b2 "RECEIVED_EVENTS_ENDPOINT events_down_env"
        "[(''per_page'', JInt 30)]"]
      events_down_answers(3)[of "length (reqs ?b2)"]
    by (simp add: events_request_def)
  note t12 = main[where env = events_down_env and ?w3.0 = ?b2 and e = ConnectionError
      and ?w4.0 = ?b4, THEN part12, THEN mp, OF h12]
  have r12': "fetch_recent_stars_by_following events_down_env
         (world0\<lparr>reqs := [user_request env0, repos_request env0 1]\<rparr>) =
       (Inl ConnectionError,
        world0\<lparr>reqs := [user_request env0, repos_request env0 1, events_request env0]\<rparr>)"
    using t12 by (simp add: world0_def events_down_env_def sample_requests(1,2,3))
  let ?q1 = "world0\<lparr>reqs := reqs world0 @ [user_request quiet_env]\<rparr>"
  let ?q2 = "?q1\<lparr>reqs := reqs ?q1 @ [repos_request quiet_env 1]\<rparr>"
  let ?q4 = "?q2\<lparr>reqs := reqs ?q2 @ [events_request quiet_env]\<rparr>"
  have h8: "fetch_user_data quiet_env world0 = (Inr user_body, ?q1)
            \<and> fetch_stars_received quiet_env ?q1 = Some (Inr (JInt 0), ?q2)
            \<and> fetch_monitored_repos_data quiet_env ?q2 = (Inr (JArr []), ?q2)
            \<and> fetch_recent_stars_by_following quiet_env ?q2 = (Inr (JArr []), ?q4)"
    using user_answered[OF quiet_answers(1), of world0]
      first_page_empty[OF quiet_answers(2), of ?q1]
      monitored_none[of quiet_env ?q2]
      events_empty[OF quiet_answers(3), of ?q2]
    by (simp add: quiet_env_def env0_def)
  note t8 = main[where env = quiet_env and ?w0.0 = world0 and u = user_body
      and ?w1.0 = ?q1 and n = "JInt 0" and ?w2.0 = ?q2 and m = "JArr []" and ?w3.0 = ?q2
      and rs = "JArr []" and ?w4.0 = ?q4, THEN part8, THEN mp, OF h8]
  have r8: "fetch_from_api quiet_env world0 =
       Some (Inr quiet_record,
             world0\<lparr>reqs := [user_request env0, repos_request env0 1, events_request env0],
                    ticks := 1\<rparr>)"
    using t8 unfolding quiet_assembled
    by (simp add: world0_def quiet_env_def sample_requests(1,2,3))
  have sh10: "scholar_load_cache env0 scholar_fresh_world
              = (Inr scholar_record, scholar_fresh_world\<lparr>ticks := 1\<rparr>) \<and> truthy scholar_record"
    using load_scholar_fresh records_truthy by simp
  note shit = main[where env = env0 and w = scholar_fresh_world and c = scholar_record
      and ?w0.0 = "scholar_fresh_world\<lparr>ticks := 1\<rparr>", THEN part13, THEN mp, OF sh10]
  have absent: "cache world0 = Absent" by (simp add: world0_def)
  have sh11: "scholar_load_cache env0 world0 = (Inr JNull, world0) \<and> \<not> truthy JNull"
    using load_absent(1)[OF absent] by simp
  note smiss = main[where env = env0 and w = world0 and c = JNull and ?w0.0 = world0,
      THEN part14, THEN mp, OF sh11]
  have sh12: "scholar_load_cache env0 world0 = (Inr JNull, world0) \<and> \<not> truthy JNull
             \<and> net env0 (length (reqs world0)) (scholar_request env0) = Failed"
    using sh11 by (simp add: env0_reads)
  note st12 = main[where env = env0 and w = world0 and c = JNull and ?w0.0 = world0,
      THEN part15, THEN mp, OF sh12]
  have sr12: "fetch_scholar_data env0 world0
               = (Inl ConnectionError, world0\<lparr>reqs := [scholar_request env0]\<rparr>)"
    using st12 by (simp add: world0_def)
  note st16 = main[where env = env0 and w = world0 and e = ConnectionError
      and ?w1.0 = "world0\<lparr>reqs := [scholar_request env0]\<rparr>", THEN last19, THEN mp, OF sr12]
  have sh13: "scholar_load_cache html_env world0 = (Inr JNull, world0) \<and> \<not> truthy JNull
             \<and> net html_env (length (reqs world0)) (scholar_request html_env)
                 = Response html_response
             \<and> body html_response = None"
    using load_absent(1)[OF absent, of html_env] by (simp add: html_env_def html_response_def)
  note st13 = main[where env = html_env and w = world0 and c = JNull and ?w0.0 = world0
      and r = html_response, THEN part16, THEN mp, OF sh13]
  have sr13: "fetch_scholar_data html_env world0
               = (Inl JSONDecodeError, world0\<lparr>reqs := [scholar_request env0]\<rparr>)"
    using st13 by (simp add: world0_def html_env_def sample_requests(4))
  let ?s1 = "world0\<lparr>reqs := reqs world0 @ [scholar_request bad_table_env]\<rparr>"
  have sh14: "scholar_load_cache bad_table_env world0 = (Inr JNull, world0) \<and> \<not> truthy JNull
             \<and> net bad_table_env (length (reqs world0)) (scholar_request bad_table_env)
                 = Response \<lparr>status_code = 200, headers = Map.empty, body = Some bad_table_body\<rparr>
             \<and> body \<lparr>status_code = 200, headers = Map.empty, body = Some bad_table_body\<rparr>
                 = Some bad_table_body
             \<and> scholar_parse bad_table_env bad_table_body ?s1
                 = (Inl (KeyError (JStr ''all'')), ?s1\<lparr>ticks := Suc (ticks ?s1)\<rparr>)"
    using load_absent(1)[OF absent, of bad_table_env] bad_table_parse[of ?s1]
    by (simp add: bad_table_env_def)
  note st14 = main[where env = bad_table_env and w = world0 and c = JNull and ?w0.0 = world0
      and r = "\<lparr>status_code = 200, headers = Map.empty, body = Some bad_table_body\<rparr>"
      and d = bad_table_body and e = "KeyError (JStr ''all'')"
      and ?w1.0 = "?s1\<lparr>ticks := Suc (ticks ?s1)\<rparr>", THEN part17, THEN mp, OF sh14]
  have sr14: "fetch_scholar_data bad_table_env world0
       = (Inl (KeyError (JStr ''all'')), world0\<lparr>reqs := [scholar_request env0], ticks := 1\<rparr>)"
    using st14 by (simp add: world0_def bad_table_env_def sample_requests(4))
  let ?e1 = "world0\<lparr>reqs := reqs world0 @ [scholar_request error_page_env]\<rparr>"
  have sh15: "scholar_load_cache error_page_env world0 = (Inr JNull, world0) \<and> \<not> truthy JNull
             \<and> net error_page_env (length (reqs world0)) (scholar_request error_page_env)
                 = Response error_page_response
             \<and> body error_page_response = Some (JObj [])
             \<and> scholar_parse error_page_env (JObj []) ?e1
                 = (Inr (default_record ''2023-11-14 22:13''), ?e1\<lparr>ticks := Suc (Suc (ticks ?e1))\<rparr>)"
    using load_absent(1)[OF absent, of error_page_env] empty_body_parse[of ?e1]
    by (simp add: error_page_env_def error_page_response_def)
  note st15 = main[where env = error_page_env and w = world0 and c = JNull and ?w0.0 = world0
      and r = error_page_response and d = "JObj []"
      and result = "default_record ''2023-11-14 22:13''"
      and ?w1.0 = "?e1\<lparr>ticks := Suc (Suc (ticks ?e1))\<rparr>", THEN part18, THEN mp, OF sh15]
  have sr15: "fetch_scholar_data error_page_env world0
       = (Inr (default_record ''2023-11-14 22:13''),
          world0\<lparr>reqs := [scholar_request env0], ticks := 3,
                 cache := Holds (entry 1700000002 (default_record ''2023-11-14 22:13''))\<rparr>)"
    using st15 by (simp add: save_cache_def Let_def world0_def error_page_reads entry_def)
  show ?thesis
    by (intro conjI hit[THEN conjunct1] hit[THEN conjunct2, THEN conjunct1] c2 kept tried
        r5 r6 r7 r10 r12' r8 shit[THEN conjunct1] smiss[THEN conjunct1] sr12 st16 sr13 sr14 sr15)
qed


lemma quiet_fetch:
  "fetch_from_api quiet_env w =
     Some (Inr quiet_record,
           w\<lparr>reqs := reqs w @ [user_request env0, repos_request env0 1, events_request env0],
             ticks := Suc (ticks w)\<rparr>)"
proof -
  let ?q1 = "w\<lparr>reqs := reqs w @ [user_request quiet_env]\<rparr>"
  let ?q2 = "?q1\<lparr>reqs := reqs ?q1 @ [repos_request quiet_env 1]\<rparr>"
  let ?q4 = "?q2\<lparr>reqs := reqs ?q2 @ [events_request quiet_env]\<rparr>"
  have m: "fetch_monitored_repos_data quiet_env ?q2 = (Inr (JArr []), ?q2)"
    by (rule monitored_none) (simp add: quiet_env_def env0_def)
  from api_assembles[OF user_answered[OF quiet_answers(1), of w]
      first_page_empty[OF quiet_answers(2), of ?q1] m
      events_empty[OF quiet_answers(3), of ?q2]]
  show ?thesis
    unfolding quiet_assembled by (simp add: quiet_env_def sample_requests(1,2,3))
qed

lemma quiet_reads:
  "clock quiet_env k = 1700000000 + real k" "writable quiet_env"
  "user_request quiet_env = user_request env0"
  by (simp_all add: quiet_env_def env0_reads sample_requests(1))

text \<open>Against a server that serves the repository list in pages, the fetch returns.\<close>

lemma api_returns:
  assumes "serves_pages env items"
  shows "\<exists>y. fetch_from_api env w = Some y"
proof (cases "fetch_user_data env w")
  case (Pair r1 w1)
  show ?thesis
  proof (cases r1)
    case (Inl e)
    with Pair show ?thesis by (simp add: fetch_from_api_def)
  next
    case (Inr u)
    from repos_loop_paged[OF assms, of 1 "[]" w1]
    obtain w2 where "fetch_repos_data env w1 = Some (Inr items, w2)"
      by (simp add: fetch_repos_data_def)
    then have "fetch_stars_received env w1 = Some (sum_stars (JInt 0) items, w2)"
      by (simp add: fetch_stars_received_def)
    with Pair Inr show ?thesis
      by (cases "sum_stars (JInt 0) items") (simp_all add: fetch_from_api_def)
  qed
qed

text \<open>
  Claim C9. Whatever the time stamp of the entry (within the window or not), a cache
  file whose \<^verbatim>\<open>data\<close> field is missing or falsy is a miss for both orchestrators.
  The code-hosting plugin returns what the fetch from the API returns, started after
  the one clock reading of \<^verbatim>\<open>load_cache\<close>: when the request for the user fails, it
  returns that failure with this one request issued; against a server that serves the
  repository list in pages it returns, and its log of requests starts with the request
  for the user. The citation plugin issues its one request and returns what comes of
  it: the failure of the request, or what the body of the answer gives.
\<close>

theorem falsy_payload_is_miss:
  "cache w = Holds (JObj kv) \<and> \<not> truthy (case map_of kv ''data'' of None \<Rightarrow> JNull | Some d \<Rightarrow> d)
   \<longrightarrow>
     fetch_github_data env w =
       (case fetch_from_api env (w\<lparr>ticks := Suc (ticks w)\<rparr>) of
          None \<Rightarrow> None
        | Some (Inl e, w1) \<Rightarrow> Some (Inl e, w1)
        | Some (Inr result, w1) \<Rightarrow> Some (Inr result, snd (save_cache result env w1)))
     \<and> (fetch_user_data env (w\<lparr>ticks := Suc (ticks w)\<rparr>) = (Inl e, w1)
          \<longrightarrow> fetch_github_data env w = Some (Inl e, w1)
              \<and> reqs w1 = reqs w @ [user_request env])
     \<and> (serves_pages env items
          \<longrightarrow> (\<exists>r w'. fetch_github_data env w = Some (r, w')
                       \<and> prefix (reqs w @ [user_request env]) (reqs w')))
     \<and> reqs (snd (fetch_scholar_data env w)) = reqs w @ [scholar_request env]
     \<and> (net env (length (reqs w)) (scholar_request env) = Failed
          \<longrightarrow> fetch_scholar_data env w
               = (Inl ConnectionError,
                  w\<lparr>ticks := Suc (ticks w), reqs := reqs w @ [scholar_request env]\<rparr>))
     \<and> (net env (length (reqs w)) (scholar_request env) = Response r
          \<longrightarrow> fst (fetch_scholar_data env w)
               = (case body r of
                    None \<Rightarrow> Inl JSONDecodeError
                  | Some d \<Rightarrow>
                      fst (scholar_parse env d
                            (w\<lparr>ticks := Suc (ticks w), reqs := reqs w @ [scholar_request env]\<rparr>))))"
proof (intro impI, elim conjE)
  assume held: "cache w = Holds (JObj kv)"
    and falsy: "\<not> truthy (case map_of kv ''data'' of None \<Rightarrow> JNull | Some d \<Rightarrow> d)"
  let ?w0 = "w\<lparr>ticks := Suc (ticks w)\<rparr>"
  have miss: "\<exists>c. load_cache x env w = (Inr c, ?w0) \<and> \<not> truthy c" for x
    using held falsy
    by (auto simp add: load_cache_def load_cache_try_def split: sum.splits option.splits)
  from miss[of GITHUB_CACHE_EXPIRATION] obtain c where
    g: "github_load_cache env w = (Inr c, ?w0)" and gc: "\<not> truthy c"
    by (auto simp add: github_load_cache_def)
  from miss[of SCHOLAR_CACHE_EXPIRATION] obtain c' where
    s: "scholar_load_cache env w = (Inr c', ?w0)" and sc: "\<not> truthy c'"
    by (auto simp add: scholar_load_cache_def)
  note eq = github_miss[OF g gc]
  have first: "fetch_github_data env w = Some (Inl e, w1) \<and> reqs w1 = reqs w @ [user_request env]"
    if u: "fetch_user_data env ?w0 = (Inl e, w1)"
    using api_user_fails[OF u] by (simp add: eq)
  have paged: "\<exists>r w'. fetch_github_data env w = Some (r, w')
                       \<and> prefix (reqs w @ [user_request env]) (reqs w')"
    if sp: "serves_pages env items"
  proof -
    from api_returns[OF sp, of ?w0] obtain r w1 where y: "fetch_from_api env ?w0 = Some (r, w1)"
      by auto
    from fetch_from_api_frame[OF y]
    have p: "prefix (reqs w @ [user_request env]) (reqs w1)" by simp
    show ?thesis
      using y p by (cases r) (simp_all add: eq save_cache_def Let_def)
  qed
  from scholar_miss_effects[OF s sc]
  have sch: "reqs (snd (fetch_scholar_data env w)) = reqs w @ [scholar_request env]" by simp
  have down: "fetch_scholar_data env w
               = (Inl ConnectionError,
                  w\<lparr>ticks := Suc (ticks w), reqs := reqs w @ [scholar_request env]\<rparr>)"
    if "net env (length (reqs w)) (scholar_request env) = Failed"
    using scholar_request_fails[OF s sc] that by simp
  have answered: "fst (fetch_scholar_data env w)
               = (case body r of
                    None \<Rightarrow> Inl JSONDecodeError
                  | Some d \<Rightarrow>
                      fst (scholar_parse env d
                            (w\<lparr>ticks := Suc (ticks w), reqs := reqs w @ [scholar_request env]\<rparr>)))"
    if "net env (length (reqs w)) (scholar_request env) = Response r"
    using scholar_miss_result[OF s sc] that by (simp split: option.split)
  show "fetch_github_data env w =
       (case fetch_from_api env (w\<lparr>ticks := Suc (ticks w)\<rparr>) of
          None \<Rightarrow> None
        | Some (Inl e, w1) \<Rightarrow> Some (Inl e, w1)
        | Some (Inr result, w1) \<Rightarrow> Some (Inr result, snd (save_cache result env w1)))
     \<and> (fetch_user_data env (w\<lparr>ticks := Suc (ticks w)\<rparr>) = (Inl e, w1)
          \<longrightarrow> fetch_github_data env w = Some (Inl e, w1)
              \<and> reqs w1 = reqs w @ [user_request env])
     \<and> (serves_pages env items
          \<longrightarrow> (\<exists>r w'. fetch_github_data env w = Some (r, w')
                       \<and> prefix (reqs w @ [user_request env]) (reqs w')))
     \<and> reqs (snd (fetch_scholar_data env w)) = reqs w @ [scholar_request env]
     \<and> (net env (length (reqs w)) (scholar_request env) = Failed
          \<longrightarrow> fetch_scholar_data env w
               = (Inl ConnectionError,
                  w\<lparr>ticks := Suc (ticks w), reqs := reqs w @ [scholar_request env]\<rparr>))
     \<and> (net env (length (reqs w)) (scholar_request env) = Response r
          \<longrightarrow> fst (fetch_scholar_data env w)
               = (case body r of
                    None \<Rightarrow> Inl JSONDecodeError
                  | Some d \<Rightarrow>
                      fst (scholar_parse env d
                            (w\<lparr>ticks := Suc (ticks w), reqs := reqs w @ [scholar_request env]\<rparr>))))"
    using eq first paged sch down answered by blast
qed

text \<open>The theorem at the fresh entry whose payload is the empty dictionary: with the
  network down the one request for the user is issued and fails; at the server that
  answers everything the record is fetched and written over the entry.\<close>

theorem falsy_payload_is_miss_witness:
  "fetch_github_data env0 empty_payload_world =
     Some (Inl ConnectionError, empty_payload_world\<lparr>ticks := 1, reqs := [user_request env0]\<rparr>)
   \<and> fetch_github_data quiet_env empty_payload_world =
       Some (Inr quiet_record,
             empty_payload_world
               \<lparr>ticks := 3,
                reqs := [user_request env0, repos_request env0 1, events_request env0],
                cache := Holds (entry 1700000002 quiet_record)\<rparr>)
   \<and> (\<exists>r w'. fetch_github_data quiet_env empty_payload_world = Some (r, w')
              \<and> prefix (reqs empty_payload_world @ [user_request quiet_env]) (reqs w'))
   \<and> reqs (snd (fetch_scholar_data env0 empty_payload_world))
       = reqs empty_payload_world @ [scholar_request env0]
   \<and> fetch_scholar_data env0 empty_payload_world
       = (Inl ConnectionError, empty_payload_world\<lparr>ticks := 1, reqs := [scholar_request env0]\<rparr>)
   \<and> fst (fetch_scholar_data error_page_env empty_payload_world)
       = Inr (default_record ''2023-11-14 22:13'')"
proof -
  have h: "cache empty_payload_world
             = Holds (JObj [(''timestamp'', JFloat 1699999990), (''data'', JObj [])])
           \<and> \<not> truthy (case map_of [(''timestamp'', JFloat 1699999990), (''data'', JObj [])] ''data''
                          of None \<Rightarrow> JNull | Some d \<Rightarrow> d)"
    by (simp add: empty_payload_world_def world0_def entry_def)
  let ?w0 = "empty_payload_world\<lparr>ticks := Suc (ticks empty_payload_world)\<rparr>"
  let ?w1 = "?w0\<lparr>reqs := reqs ?w0 @ [user_request env0]\<rparr>"
  note down = falsy_payload_is_miss[where w = empty_payload_world
      and kv = "[(''timestamp'', JFloat 1699999990), (''data'', JObj [])]" and env = env0
      and e = ConnectionError and ?w1.0 = ?w1, THEN mp, OF h]
  note live = falsy_payload_is_miss[where w = empty_payload_world
      and kv = "[(''timestamp'', JFloat 1699999990), (''data'', JObj [])]" and env = quiet_env
      and items = "[]", THEN mp, OF h]
  have u: "fetch_user_data env0 ?w0 = (Inl ConnectionError, ?w1)"
    by (simp add: fetch_user_data_def make_github_request_def user_request_def env0_reads)
  from down[THEN part2, THEN mp, OF u]
  have r1: "fetch_github_data env0 empty_payload_world =
     Some (Inl ConnectionError, empty_payload_world\<lparr>ticks := 1, reqs := [user_request env0]\<rparr>)"
    by (simp add: empty_payload_world_def world0_def)
  have r2: "fetch_github_data quiet_env empty_payload_world =
       Some (Inr quiet_record,
             empty_payload_world
               \<lparr>ticks := 3,
                reqs := [user_request env0, repos_request env0 1, events_request env0],
                cache := Holds (entry 1700000002 quiet_record)\<rparr>)"
    unfolding live[THEN conjunct1] quiet_fetch
    by (simp add: save_cache_def Let_def quiet_reads empty_payload_world_def world0_def entry_def)
  note r3 = live[THEN part3, THEN mp, OF quiet_serves]
  note r4 = down[THEN part4]
  have n5: "net env0 (length (reqs empty_payload_world)) (scholar_request env0) = Failed"
    by (simp add: env0_reads)
  from down[THEN part5, THEN mp, OF n5]
  have r5: "fetch_scholar_data env0 empty_payload_world
       = (Inl ConnectionError, empty_payload_world\<lparr>ticks := 1, reqs := [scholar_request env0]\<rparr>)"
    by (simp add: empty_payload_world_def world0_def)
  note page = falsy_payload_is_miss[where w = empty_payload_world
      and kv = "[(''timestamp'', JFloat 1699999990), (''data'', JObj [])]" and env = error_page_env
      and r = error_page_response, THEN mp, OF h]
  have n6: "net error_page_env (length (reqs empty_payload_world)) (scholar_request error_page_env)
              = Response error_page_response"
    by (simp add: error_page_env_def)
  from page[THEN conjunct2, THEN conjunct2, THEN conjunct2, THEN conjunct2, THEN conjunct2,
      THEN mp, OF n6]
  have r6: "fst (fetch_scholar_data error_page_env empty_payload_world)
       = Inr (default_record ''2023-11-14 22:13'')"
    by (simp add: error_page_response_def empty_body_parse)
  show ?thesis by (intro conjI r1 r2 r3 r4 r5 r6)
qed

section \<open>Properties of the entry points\<close>

text \<open>A load that found nothing to serve finds nothing later either, as long as the
  file is the same and the clock has not gone back.\<close>

lemma load_stays_falsy:
  assumes "cache w' = cache w" and "clock env (ticks w) \<le> clock env (ticks w')"
    and "load_cache x env w = (Inr c, w0)" and "\<not> truthy c"
  shows "\<exists>c'. load_cache x env w' = (Inr c', w'\<lparr>ticks := ticks w' + (ticks w0 - ticks w)\<rparr>)
              \<and> \<not> truthy c'"
proof (cases "cache w")
  case (Holds j)
  show ?thesis
  proof (cases "dict_get j ''timestamp'' (JInt 0)")
    case (Inl e)
    with assms Holds show ?thesis by (auto simp add: load_cache_def load_cache_try_def)
  next
    case (Inr ts)
    show ?thesis
    proof (cases "float_of ts")
      case (Inl e)
      with assms Holds Inr show ?thesis by (auto simp add: load_cache_def load_cache_try_def)
    next
      case t: (Inr t)
      with assms Holds Inr show ?thesis
        by (cases "dict_get j ''data'' JNull")
           (auto simp add: load_cache_def load_cache_try_def split: if_splits)
    qed
  qed
qed (use assms in \<open>auto simp add: load_cache_def\<close>)

text \<open>With a clock that never goes back, a run whose fetch has failed always ends in
  the minimal error view: the branch of the handler that shows cached data is not
  reachable from a failure of the fetch.\<close>

lemma failed_fetch_never_serves_cache:
  assumes mono: "\<And>i j. i \<le> j \<Longrightarrow> clock env i \<le> clock env j"
    and failed: "fetch_github_data env w = Some (Inl e, w1)"
  shows "\<exists>w2. github_handler env e w1 = (Inr (), w2)
              \<and> stdout w2 = stdout w1 @
                  [ICON_CROSS @ '' GitHub | color=red'',
                   ''---'',
                   ''API Error: '' @ exn_str env e @ '' | color=#DB4437'',
                   ''Please check your configuration and network | color=#7F7F7F'',
                   ''---'',
                   ICON_REFRESH @ '' Try Again | refresh=true'']"
proof -
  have "\<exists>c w0. github_load_cache env w = (Inr c, w0)"
    by (simp add: github_load_cache_def load_cache_def split: file_state.split sum.split)
  then obtain c w0 where l: "github_load_cache env w = (Inr c, w0)" by blast
  have falsy: "\<not> truthy c"
    using failed github_hit[OF l] by auto
  from failed github_miss[OF l falsy] have api: "fetch_from_api env w0 = Some (Inl e, w1)"
    by (auto split: option.splits prod.splits sum.splits)
  from fetch_from_api_frame[OF api] load_cache_frame[OF l[unfolded github_load_cache_def]]
  have same: "cache w1 = cache w" and later: "ticks w \<le> ticks w1"
    by (simp_all add: only_fetches_def)
  from load_stays_falsy[OF same mono[OF later] l[unfolded github_load_cache_def] falsy]
  obtain c' w2 where l': "github_load_cache env w1 = (Inr c', w2)" and f': "\<not> truthy c'"
    and out: "stdout w2 = stdout w1"
    by (auto simp add: github_load_cache_def)
  show ?thesis
    by (simp add: github_handler_def bind_io_def l' f' print_lines_def out)
qed

text \<open>
  Claim C1 fails on the code. The entry point has no loader that ignores the
  expiration window: its fallback calls \<^verbatim>\<open>load_cache\<close>, which returns \<^verbatim>\<open>None\<close> for an
  entry older than the window. With the network down and a complete record written
  10000 seconds ago (the window is 3600 seconds), the run prints the minimal error
  view: no line carries the marker \<^verbatim>\<open>(cached)\<close>, and nothing of the cached record is
  shown.
\<close>

theorem stale_cache_not_served:
  "github_main env0 stale_world =
     Some (0, stale_world
       \<lparr>ticks := 2, reqs := [user_request env0],
        stdout := [ICON_CROSS @ '' GitHub | color=red'',
                   ''---'',
                   ''API Error: '' @ exn_str env0 ConnectionError @ '' | color=#DB4437'',
                   ''Please check your configuration and network | color=#7F7F7F'',
                   ''---'',
                   ICON_REFRESH @ '' Try Again | refresh=true'']\<rparr>)"
  by (simp add: github_main_def github_try_def fetch_github_data_def load_old api_down
      github_handler_def bind_io_def print_lines_def stale_world_def world0_def)

text \<open>
  Claim C8 fails on the code. The \<^verbatim>\<open>except\<close> block is the only error boundary, and it
  can raise itself: with a fresh cache file whose payload is a non-empty dictionary
  that is not a result record, formatting fails in the \<^verbatim>\<open>try\<close> block, the handler
  loads the same payload and \<^verbatim>\<open>cached_data['name']\<close> raises a \<^verbatim>\<open>KeyError\<close> that nobody
  catches. Both plugins end with exit status 1 and no line printed.
\<close>

theorem handler_raises:
  "github_main env0 foreign_world = Some (1, foreign_world\<lparr>ticks := 2\<rparr>)
   \<and> scholar_main env0 foreign_world = (1, foreign_world\<lparr>ticks := 2\<rparr>)"
proof -
  have g: "github_main env0 foreign_world = Some (1, foreign_world\<lparr>ticks := 2\<rparr>)"
    by (simp add: github_main_def github_try_def fetch_github_data_def load_recent
        github_format_xbar_output_def github_handler_def github_cached_title_def bind_io_def
        lift_io_def bind_res_def foreign_world_def world0_def)
  have s: "scholar_main env0 foreign_world = (1, foreign_world\<lparr>ticks := 2\<rparr>)"
    by (simp add: scholar_main_def scholar_try_def fetch_scholar_data_def load_recent
        scholar_format_xbar_output_def scholar_handler_def scholar_cached_title_def bind_io_def
        lift_io_def bind_res_def foreign_world_def world0_def)
  from g s show ?thesis by simp
qed

end
